theory Spec2Isabelle
  imports Complex_Main
begin

section \<open>Numbers and strings of the host language\<close>

text \<open>
  The engine is TypeScript. Its numbers are modelled as the reals; where the code tests a
  value with \<open>isNaN\<close> or \<open>isFinite\<close>, or reads it from untyped input, the value is a
  \<open>jsnum\<close>, which adds the three non-finite values. Rounding is not modelled.
\<close>

datatype jsnum = Num real | NaN | PosInf | NegInf

fun isNaN :: "jsnum \<Rightarrow> bool" where
  "isNaN NaN = True"
| "isNaN _ = False"

fun isFinite :: "jsnum \<Rightarrow> bool" where
  "isFinite (Num _) = True"
| "isFinite _ = False"

text \<open>\<open>Math.max\<close> on two numbers: \<open>NaN\<close> if either is \<open>NaN\<close>.\<close>

fun jsmax :: "jsnum \<Rightarrow> jsnum \<Rightarrow> jsnum" where
  "jsmax NaN _ = NaN"
| "jsmax _ NaN = NaN"
| "jsmax PosInf _ = PosInf"
| "jsmax _ PosInf = PosInf"
| "jsmax NegInf b = b"
| "jsmax a NegInf = a"
| "jsmax (Num a) (Num b) = Num (max a b)"

text \<open>The comparison \<open>a < b\<close>: false whenever an operand is \<open>NaN\<close>.\<close>

fun jsless :: "jsnum \<Rightarrow> jsnum \<Rightarrow> bool" where
  "jsless NaN _ = False"
| "jsless _ NaN = False"
| "jsless (Num a) (Num b) = (a < b)"
| "jsless NegInf b = (b \<noteq> NegInf)"
| "jsless a PosInf = (a \<noteq> PosInf)"
| "jsless _ _ = False"

text \<open>\<open>v || d\<close> on a number: \<open>0\<close> and \<open>NaN\<close> are falsy.\<close>

definition orElse :: "jsnum \<Rightarrow> jsnum \<Rightarrow> jsnum" where
  "orElse v d = (if v = Num 0 \<or> v = NaN then d else v)"

text \<open>
  A string is its list of UTF-16 code units. \<open>ustr\<close> embeds an ASCII literal. Iterating
  a string with \<open>for ... of\<close> yields its code points, each a string of one unit or of a
  surrogate pair.
\<close>

type_synonym jsstring = "nat list"

definition ustr :: "string \<Rightarrow> jsstring" where
  "ustr s = map of_char s"

definition isHighSurrogate :: "nat \<Rightarrow> bool" where
  "isHighSurrogate u = (55296 \<le> u \<and> u \<le> 56319)"

definition isLowSurrogate :: "nat \<Rightarrow> bool" where
  "isLowSurrogate u = (56320 \<le> u \<and> u \<le> 57343)"

fun jsChars :: "jsstring \<Rightarrow> jsstring list" where
  "jsChars [] = []"
| "jsChars [u] = [u] # []"
| "jsChars (u # v # rest) =
     (if isHighSurrogate u \<and> isLowSurrogate v then [u, v] # jsChars rest
      else [u] # jsChars (v # rest))"

text \<open>
  \<open>String.prototype.toUpperCase\<close>, unit by unit: the ASCII and Latin-1 letters, and the
  two further code points whose upper-case form is an ASCII letter (U+0131 dotless i and
  U+017F long s). Other code units are left as they are in this model; their upper-case
  forms are not keys of the glyph table.
\<close>

definition upperUnit :: "nat \<Rightarrow> jsstring" where
  "upperUnit u =
     (if 97 \<le> u \<and> u \<le> 122 then [u - 32]
      else if u = 223 then [83, 83]
      else if u = 181 then [924]
      else if u = 255 then [376]
      else if 224 \<le> u \<and> u \<le> 254 \<and> u \<noteq> 247 then [u - 32]
      else if u = 305 then [73]
      else if u = 383 then [83]
      else [u])"

definition toUpperCase :: "jsstring \<Rightarrow> jsstring" where
  "toUpperCase s = concat (map upperUnit s)"

text \<open>\<open>s.startsWith(p)\<close> and \<open>s.replace(p, '')\<close> (first occurrence only).\<close>

fun startsWith :: "jsstring \<Rightarrow> jsstring \<Rightarrow> bool" where
  "startsWith s [] = True"
| "startsWith [] (p # ps) = False"
| "startsWith (c # cs) (p # ps) = (c = p \<and> startsWith cs ps)"

fun removeFirst :: "jsstring \<Rightarrow> jsstring \<Rightarrow> jsstring" where
  "removeFirst p [] = []"
| "removeFirst p (c # cs) =
     (if startsWith (c # cs) p then drop (length p) (c # cs) else c # removeFirst p cs)"

section \<open>Glyph path library (textToPath.ts)\<close>

text \<open>
  An SVG path string is modelled by its commands: the command letter and the numbers that
  follow it. \<open>M 0 30 L 0 0\<close> is \<open>[PathCmd M [0, 30], PathCmd L [0, 0]]\<close>.
\<close>

datatype pathcmd = PathCmd char "real list"

type_synonym svgpath = "pathcmd list"

record Position =
  px :: real
  py :: real

record PathSegment =
  d :: svgpath
  seglength :: real

definition LETTER_TABLE :: "(jsstring \<times> svgpath list) list" where
  "LETTER_TABLE = [
    (ustr ''P'', [
      [PathCmd CHR ''M'' [0, 30], PathCmd CHR ''L'' [0, 0], PathCmd CHR ''C'' [20, 0, 25, 5, 25, 10], PathCmd CHR ''C'' [25, 18, 15, 20, 0, 20]]]),
    (ustr ''Y'', [
      [PathCmd CHR ''M'' [0, 0], PathCmd CHR ''L'' [12, 15], PathCmd CHR ''L'' [12, 30]],
      [PathCmd CHR ''M'' [24, 0], PathCmd CHR ''L'' [12, 15]]]),
    (ustr ''T'', [
      [PathCmd CHR ''M'' [0, 0], PathCmd CHR ''L'' [24, 0]],
      [PathCmd CHR ''M'' [12, 0], PathCmd CHR ''L'' [12, 30]]]),
    (ustr ''H'', [
      [PathCmd CHR ''M'' [0, 0], PathCmd CHR ''L'' [0, 30]],
      [PathCmd CHR ''M'' [0, 15], PathCmd CHR ''L'' [20, 15]],
      [PathCmd CHR ''M'' [20, 0], PathCmd CHR ''L'' [20, 30]]]),
    (ustr ''O'', [
      [PathCmd CHR ''M'' [12, 0], PathCmd CHR ''C'' [- 2, 0, - 2, 30, 12, 30], PathCmd CHR ''C'' [26, 30, 26, 0, 12, 0]]]),
    (ustr ''N'', [
      [PathCmd CHR ''M'' [0, 30], PathCmd CHR ''L'' [0, 0], PathCmd CHR ''L'' [20, 30], PathCmd CHR ''L'' [20, 0]]]),
    (ustr ''R'', [
      [PathCmd CHR ''M'' [0, 30], PathCmd CHR ''L'' [0, 0], PathCmd CHR ''C'' [20, 0, 22, 8, 20, 12], PathCmd CHR ''C'' [18, 16, 10, 16, 0, 16]],
      [PathCmd CHR ''M'' [10, 16], PathCmd CHR ''L'' [22, 30]]]),
    (ustr ''G'', [
      [PathCmd CHR ''M'' [24, 6], PathCmd CHR ''C'' [18, 0, 6, 0, 2, 10], PathCmd CHR ''C'' [- 2, 20, 2, 30, 12, 30], PathCmd CHR ''C'' [22, 30, 24, 22, 24, 16], PathCmd CHR ''L'' [14, 16]]]),
    (ustr ''A'', [
      [PathCmd CHR ''M'' [0, 30], PathCmd CHR ''L'' [12, 0], PathCmd CHR ''L'' [24, 30]],
      [PathCmd CHR ''M'' [6, 18], PathCmd CHR ''L'' [18, 18]]]),
    (ustr ''M'', [
      [PathCmd CHR ''M'' [0, 30], PathCmd CHR ''L'' [0, 0], PathCmd CHR ''L'' [14, 20], PathCmd CHR ''L'' [28, 0], PathCmd CHR ''L'' [28, 30]]]),
    (ustr ''I'', [
      [PathCmd CHR ''M'' [0, 0], PathCmd CHR ''L'' [16, 0]],
      [PathCmd CHR ''M'' [8, 0], PathCmd CHR ''L'' [8, 30]],
      [PathCmd CHR ''M'' [0, 30], PathCmd CHR ''L'' [16, 30]]]),
    (ustr ''L'', [
      [PathCmd CHR ''M'' [0, 0], PathCmd CHR ''L'' [0, 30], PathCmd CHR ''L'' [20, 30]]]),
    (ustr ''E'', [
      [PathCmd CHR ''M'' [20, 0], PathCmd CHR ''L'' [0, 0], PathCmd CHR ''L'' [0, 30], PathCmd CHR ''L'' [20, 30]],
      [PathCmd CHR ''M'' [0, 15], PathCmd CHR ''L'' [16, 15]]]),
    (ustr ''S'', [
      [PathCmd CHR ''M'' [22, 6], PathCmd CHR ''C'' [18, 0, 6, 0, 4, 6], PathCmd CHR ''C'' [0, 14, 20, 16, 22, 24], PathCmd CHR ''C'' [24, 32, 6, 32, 2, 26]]]),
    (ustr ''C'', [
      [PathCmd CHR ''M'' [24, 6], PathCmd CHR ''C'' [18, 0, 6, 0, 2, 10], PathCmd CHR ''C'' [- 2, 22, 6, 30, 14, 30], PathCmd CHR ''C'' [20, 30, 24, 26, 24, 26]]]),
    (ustr ''D'', [
      [PathCmd CHR ''M'' [0, 0], PathCmd CHR ''L'' [0, 30], PathCmd CHR ''L'' [8, 30], PathCmd CHR ''C'' [26, 30, 26, 0, 8, 0], PathCmd CHR ''L'' [0, 0]]]),
    (ustr ''U'', [
      [PathCmd CHR ''M'' [0, 0], PathCmd CHR ''L'' [0, 20], PathCmd CHR ''C'' [0, 32, 22, 32, 22, 20], PathCmd CHR ''L'' [22, 0]]]),
    (ustr ''W'', [
      [PathCmd CHR ''M'' [0, 0], PathCmd CHR ''L'' [7, 30], PathCmd CHR ''L'' [14, 10], PathCmd CHR ''L'' [21, 30], PathCmd CHR ''L'' [28, 0]]]),
    (ustr ''B'', [
      [PathCmd CHR ''M'' [0, 0], PathCmd CHR ''L'' [0, 30]],
      [PathCmd CHR ''M'' [0, 0], PathCmd CHR ''C'' [18, 0, 18, 14, 0, 14], PathCmd CHR ''C'' [20, 14, 20, 30, 0, 30]]]),
    (ustr ''F'', [
      [PathCmd CHR ''M'' [20, 0], PathCmd CHR ''L'' [0, 0], PathCmd CHR ''L'' [0, 30]],
      [PathCmd CHR ''M'' [0, 14], PathCmd CHR ''L'' [16, 14]]]),
    (ustr ''V'', [
      [PathCmd CHR ''M'' [0, 0], PathCmd CHR ''L'' [12, 30], PathCmd CHR ''L'' [24, 0]]]),
    (ustr ''K'', [
      [PathCmd CHR ''M'' [0, 0], PathCmd CHR ''L'' [0, 30]],
      [PathCmd CHR ''M'' [22, 0], PathCmd CHR ''L'' [0, 16], PathCmd CHR ''L'' [22, 30]]]),
    (ustr ''X'', [
      [PathCmd CHR ''M'' [0, 0], PathCmd CHR ''L'' [24, 30]],
      [PathCmd CHR ''M'' [24, 0], PathCmd CHR ''L'' [0, 30]]]),
    (ustr ''Z'', [
      [PathCmd CHR ''M'' [0, 0], PathCmd CHR ''L'' [24, 0], PathCmd CHR ''L'' [0, 30], PathCmd CHR ''L'' [24, 30]]]),
    (ustr ''J'', [
      [PathCmd CHR ''M'' [0, 0], PathCmd CHR ''L'' [20, 0]],
      [PathCmd CHR ''M'' [14, 0], PathCmd CHR ''L'' [14, 24], PathCmd CHR ''C'' [14, 32, 0, 32, 0, 24]]]),
    (ustr ''Q'', [
      [PathCmd CHR ''M'' [12, 0], PathCmd CHR ''C'' [- 2, 0, - 2, 30, 12, 30], PathCmd CHR ''C'' [26, 30, 26, 0, 12, 0]],
      [PathCmd CHR ''M'' [16, 22], PathCmd CHR ''L'' [26, 32]]]),
    (ustr ''a'', [
      [PathCmd CHR ''M'' [0, 20], PathCmd CHR ''C'' [0, 10, 8, 8, 12, 10], PathCmd CHR ''C'' [16, 8, 24, 10, 24, 20], PathCmd CHR ''C'' [24, 30, 16, 32, 12, 30], PathCmd CHR ''C'' [8, 32, 0, 30, 0, 20]],
      [PathCmd CHR ''M'' [12, 20], PathCmd CHR ''L'' [12, 30]]]),
    (ustr ''b'', [
      [PathCmd CHR ''M'' [0, 0], PathCmd CHR ''L'' [0, 30]],
      [PathCmd CHR ''M'' [0, 15], PathCmd CHR ''C'' [0, 8, 6, 6, 12, 8], PathCmd CHR ''C'' [18, 6, 24, 8, 24, 15], PathCmd CHR ''C'' [24, 22, 18, 24, 12, 22], PathCmd CHR ''C'' [6, 24, 0, 22, 0, 15]]]),
    (ustr ''c'', [
      [PathCmd CHR ''M'' [24, 10], PathCmd CHR ''C'' [20, 6, 8, 6, 4, 10], PathCmd CHR ''C'' [0, 16, 4, 24, 12, 26], PathCmd CHR ''C'' [20, 24, 24, 16, 24, 10]]]),
    (ustr ''d'', [
      [PathCmd CHR ''M'' [24, 0], PathCmd CHR ''L'' [24, 30]],
      [PathCmd CHR ''M'' [24, 15], PathCmd CHR ''C'' [24, 8, 18, 6, 12, 8], PathCmd CHR ''C'' [6, 6, 0, 8, 0, 15], PathCmd CHR ''C'' [0, 22, 6, 24, 12, 22], PathCmd CHR ''C'' [18, 24, 24, 22, 24, 15]]]),
    (ustr ''e'', [
      [PathCmd CHR ''M'' [0, 18], PathCmd CHR ''L'' [24, 18]],
      [PathCmd CHR ''M'' [0, 18], PathCmd CHR ''C'' [0, 8, 8, 6, 16, 8], PathCmd CHR ''C'' [24, 6, 24, 16, 20, 20], PathCmd CHR ''C'' [16, 24, 8, 24, 4, 20]]]),
    (ustr ''f'', [
      [PathCmd CHR ''M'' [12, 0], PathCmd CHR ''L'' [12, 30]],
      [PathCmd CHR ''M'' [0, 8], PathCmd CHR ''L'' [20, 8]],
      [PathCmd CHR ''M'' [8, 20], PathCmd CHR ''C'' [12, 20, 16, 22, 16, 26]]]),
    (ustr ''g'', [
      [PathCmd CHR ''M'' [12, 15], PathCmd CHR ''C'' [12, 8, 6, 6, 0, 8], PathCmd CHR ''C'' [- 4, 10, - 4, 18, 0, 20], PathCmd CHR ''C'' [6, 22, 12, 20, 12, 15]],
      [PathCmd CHR ''M'' [12, 20], PathCmd CHR ''L'' [12, 30], PathCmd CHR ''C'' [12, 36, 6, 38, 2, 36]]]),
    (ustr ''h'', [
      [PathCmd CHR ''M'' [0, 0], PathCmd CHR ''L'' [0, 30]],
      [PathCmd CHR ''M'' [0, 15], PathCmd CHR ''L'' [12, 15]],
      [PathCmd CHR ''M'' [12, 15], PathCmd CHR ''C'' [12, 8, 18, 6, 24, 8], PathCmd CHR ''C'' [24, 14, 24, 20, 24, 30]]]),
    (ustr ''i'', [
      [PathCmd CHR ''M'' [8, 0], PathCmd CHR ''L'' [8, 20]],
      [PathCmd CHR ''M'' [8, 30], PathCmd CHR ''C'' [8, 28, 10, 28, 10, 30], PathCmd CHR ''C'' [10, 32, 8, 32, 8, 30]]]),
    (ustr ''j'', [
      [PathCmd CHR ''M'' [12, 0], PathCmd CHR ''L'' [12, 20]],
      [PathCmd CHR ''M'' [12, 20], PathCmd CHR ''C'' [12, 28, 6, 30, 2, 28]],
      [PathCmd CHR ''M'' [12, 30], PathCmd CHR ''C'' [12, 28, 14, 28, 14, 30], PathCmd CHR ''C'' [14, 32, 12, 32, 12, 30]]]),
    (ustr ''k'', [
      [PathCmd CHR ''M'' [0, 0], PathCmd CHR ''L'' [0, 30]],
      [PathCmd CHR ''M'' [0, 15], PathCmd CHR ''L'' [16, 0]],
      [PathCmd CHR ''M'' [0, 15], PathCmd CHR ''L'' [16, 30]]]),
    (ustr ''l'', [
      [PathCmd CHR ''M'' [8, 0], PathCmd CHR ''L'' [8, 30]],
      [PathCmd CHR ''M'' [8, 30], PathCmd CHR ''L'' [4, 26]]]),
    (ustr ''m'', [
      [PathCmd CHR ''M'' [0, 30], PathCmd CHR ''L'' [0, 10], PathCmd CHR ''C'' [0, 6, 4, 4, 8, 6], PathCmd CHR ''C'' [12, 4, 16, 6, 16, 10], PathCmd CHR ''L'' [16, 30]],
      [PathCmd CHR ''M'' [16, 10], PathCmd CHR ''C'' [16, 6, 20, 4, 24, 6], PathCmd CHR ''C'' [28, 4, 32, 6, 32, 10], PathCmd CHR ''L'' [32, 30]]]),
    (ustr ''n'', [
      [PathCmd CHR ''M'' [0, 30], PathCmd CHR ''L'' [0, 10], PathCmd CHR ''C'' [0, 6, 4, 4, 8, 6], PathCmd CHR ''C'' [12, 4, 16, 6, 16, 10], PathCmd CHR ''L'' [16, 30]]]),
    (ustr ''o'', [
      [PathCmd CHR ''M'' [12, 10], PathCmd CHR ''C'' [6, 8, 0, 10, 0, 18], PathCmd CHR ''C'' [0, 26, 6, 28, 12, 26], PathCmd CHR ''C'' [18, 28, 24, 26, 24, 18], PathCmd CHR ''C'' [24, 10, 18, 8, 12, 10]]]),
    (ustr ''p'', [
      [PathCmd CHR ''M'' [0, 30], PathCmd CHR ''L'' [0, 0]],
      [PathCmd CHR ''M'' [0, 15], PathCmd CHR ''C'' [0, 8, 6, 6, 12, 8], PathCmd CHR ''C'' [18, 6, 24, 8, 24, 15], PathCmd CHR ''C'' [24, 22, 18, 24, 12, 22], PathCmd CHR ''C'' [6, 24, 0, 22, 0, 15]]]),
    (ustr ''q'', [
      [PathCmd CHR ''M'' [24, 30], PathCmd CHR ''L'' [24, 0]],
      [PathCmd CHR ''M'' [24, 15], PathCmd CHR ''C'' [24, 8, 18, 6, 12, 8], PathCmd CHR ''C'' [6, 6, 0, 8, 0, 15], PathCmd CHR ''C'' [0, 22, 6, 24, 12, 22], PathCmd CHR ''C'' [18, 24, 24, 22, 24, 15]],
      [PathCmd CHR ''M'' [18, 22], PathCmd CHR ''L'' [28, 32]]]),
    (ustr ''r'', [
      [PathCmd CHR ''M'' [0, 0], PathCmd CHR ''L'' [0, 30]],
      [PathCmd CHR ''M'' [0, 15], PathCmd CHR ''C'' [0, 10, 4, 8, 8, 10], PathCmd CHR ''C'' [12, 8, 16, 10, 16, 15]]]),
    (ustr ''s'', [
      [PathCmd CHR ''M'' [20, 8], PathCmd CHR ''C'' [16, 4, 4, 4, 2, 8], PathCmd CHR ''C'' [0, 14, 18, 16, 20, 22], PathCmd CHR ''C'' [22, 28, 6, 30, 2, 26]]]),
    (ustr ''t'', [
      [PathCmd CHR ''M'' [8, 0], PathCmd CHR ''L'' [8, 30]],
      [PathCmd CHR ''M'' [0, 8], PathCmd CHR ''L'' [20, 8]]]),
    (ustr ''u'', [
      [PathCmd CHR ''M'' [0, 10], PathCmd CHR ''C'' [0, 6, 4, 4, 8, 6], PathCmd CHR ''C'' [12, 4, 16, 6, 16, 10], PathCmd CHR ''L'' [16, 30]],
      [PathCmd CHR ''M'' [16, 10], PathCmd CHR ''C'' [16, 6, 20, 4, 24, 6], PathCmd CHR ''C'' [28, 4, 32, 6, 32, 10], PathCmd CHR ''L'' [32, 30]]]),
    (ustr ''v'', [
      [PathCmd CHR ''M'' [0, 10], PathCmd CHR ''L'' [16, 30], PathCmd CHR ''L'' [32, 10]]]),
    (ustr ''w'', [
      [PathCmd CHR ''M'' [0, 10], PathCmd CHR ''L'' [8, 30], PathCmd CHR ''L'' [16, 10], PathCmd CHR ''L'' [24, 30], PathCmd CHR ''L'' [32, 10]]]),
    (ustr ''x'', [
      [PathCmd CHR ''M'' [0, 10], PathCmd CHR ''L'' [16, 20], PathCmd CHR ''L'' [32, 10]],
      [PathCmd CHR ''M'' [32, 30], PathCmd CHR ''L'' [16, 20], PathCmd CHR ''L'' [0, 30]]]),
    (ustr ''y'', [
      [PathCmd CHR ''M'' [0, 10], PathCmd CHR ''L'' [16, 20], PathCmd CHR ''L'' [16, 30]],
      [PathCmd CHR ''M'' [32, 10], PathCmd CHR ''L'' [16, 20]]]),
    (ustr ''z'', [
      [PathCmd CHR ''M'' [0, 10], PathCmd CHR ''L'' [32, 10], PathCmd CHR ''L'' [0, 30], PathCmd CHR ''L'' [32, 30]]]),
    (ustr ''0'', [
      [PathCmd CHR ''M'' [12, 0], PathCmd CHR ''C'' [2, 0, 0, 8, 0, 18], PathCmd CHR ''C'' [0, 28, 2, 30, 12, 30], PathCmd CHR ''C'' [22, 30, 24, 28, 24, 18], PathCmd CHR ''C'' [24, 8, 22, 0, 12, 0]],
      [PathCmd CHR ''M'' [0, 0], PathCmd CHR ''L'' [24, 30]]]),
    (ustr ''1'', [
      [PathCmd CHR ''M'' [8, 0], PathCmd CHR ''L'' [8, 30]],
      [PathCmd CHR ''M'' [0, 8], PathCmd CHR ''L'' [8, 0], PathCmd CHR ''L'' [16, 0]]]),
    (ustr ''2'', [
      [PathCmd CHR ''M'' [0, 8], PathCmd CHR ''C'' [0, 0, 12, 0, 16, 4], PathCmd CHR ''C'' [20, 8, 20, 16, 4, 30], PathCmd CHR ''L'' [24, 30]]]),
    (ustr ''3'', [
      [PathCmd CHR ''M'' [0, 6], PathCmd CHR ''C'' [0, 0, 10, 0, 14, 4], PathCmd CHR ''C'' [18, 8, 14, 12, 10, 12]],
      [PathCmd CHR ''M'' [0, 24], PathCmd CHR ''C'' [0, 30, 10, 30, 14, 26], PathCmd CHR ''C'' [18, 22, 14, 18, 10, 18]]]),
    (ustr ''4'', [
      [PathCmd CHR ''M'' [0, 20], PathCmd CHR ''L'' [16, 0], PathCmd CHR ''L'' [16, 30]],
      [PathCmd CHR ''M'' [0, 12], PathCmd CHR ''L'' [24, 12]]]),
    (ustr ''5'', [
      [PathCmd CHR ''M'' [20, 0], PathCmd CHR ''L'' [4, 0], PathCmd CHR ''L'' [4, 14], PathCmd CHR ''C'' [4, 18, 8, 20, 12, 18], PathCmd CHR ''C'' [16, 16, 20, 18, 20, 22], PathCmd CHR ''C'' [20, 28, 12, 30, 4, 28]]]),
    (ustr ''6'', [
      [PathCmd CHR ''M'' [20, 8], PathCmd CHR ''C'' [18, 4, 10, 2, 6, 6], PathCmd CHR ''C'' [2, 10, 2, 20, 6, 24], PathCmd CHR ''C'' [10, 28, 18, 26, 20, 22], PathCmd CHR ''C'' [20, 18, 16, 16, 12, 18]]]),
    (ustr ''7'', [
      [PathCmd CHR ''M'' [0, 0], PathCmd CHR ''L'' [20, 0]],
      [PathCmd CHR ''M'' [20, 0], PathCmd CHR ''L'' [8, 30]]]),
    (ustr ''8'', [
      [PathCmd CHR ''M'' [12, 0], PathCmd CHR ''C'' [4, 0, 0, 6, 0, 14], PathCmd CHR ''C'' [0, 18, 2, 20, 6, 18]],
      [PathCmd CHR ''M'' [12, 30], PathCmd CHR ''C'' [4, 30, 0, 24, 0, 16], PathCmd CHR ''C'' [0, 12, 2, 10, 6, 12]]]),
    (ustr ''9'', [
      [PathCmd CHR ''M'' [4, 8], PathCmd CHR ''C'' [6, 4, 14, 2, 18, 6], PathCmd CHR ''C'' [22, 10, 22, 20, 18, 24], PathCmd CHR ''C'' [14, 28, 6, 26, 4, 22], PathCmd CHR ''C'' [4, 18, 8, 16, 12, 18]]]),
    (ustr '' '', []),
    (ustr ''.'', [
      [PathCmd CHR ''M'' [4, 28], PathCmd CHR ''C'' [4, 26, 6, 26, 6, 28], PathCmd CHR ''C'' [6, 30, 4, 30, 4, 28]]]),
    (ustr '','', [
      [PathCmd CHR ''M'' [6, 26], PathCmd CHR ''C'' [8, 26, 8, 30, 4, 34]]]),
    (ustr ''!'', [
      [PathCmd CHR ''M'' [8, 0], PathCmd CHR ''L'' [8, 20]],
      [PathCmd CHR ''M'' [8, 26], PathCmd CHR ''L'' [8, 28]]]),
    (ustr ''?'', [
      [PathCmd CHR ''M'' [2, 6], PathCmd CHR ''C'' [2, 0, 14, 0, 14, 8], PathCmd CHR ''C'' [14, 14, 8, 16, 8, 22]],
      [PathCmd CHR ''M'' [8, 28], PathCmd CHR ''L'' [8, 30]]]),
    (ustr ''-'', [
      [PathCmd CHR ''M'' [0, 14], PathCmd CHR ''L'' [16, 14]]]),
    (ustr '':'', [
      [PathCmd CHR ''M'' [8, 8], PathCmd CHR ''L'' [8, 10]],
      [PathCmd CHR ''M'' [8, 22], PathCmd CHR ''L'' [8, 24]]]),
    ([39], [
      [PathCmd CHR ''M'' [8, 0], PathCmd CHR ''L'' [8, 8]]]),
    (ustr ''/'', [
      [PathCmd CHR ''M'' [0, 0], PathCmd CHR ''L'' [24, 30]]])
  ]"

definition LETTER_PATHS :: "jsstring \<Rightarrow> svgpath list option" where
  "LETTER_PATHS k = map_of LETTER_TABLE k"

text \<open>
  \<open>transformPathString\<close>: every command keeps its letter; its numbers are taken in pairs,
  scaled and shifted, and an unpaired last number is dropped.
\<close>

fun transformCoords :: "real list \<Rightarrow> real \<Rightarrow> real \<Rightarrow> real \<Rightarrow> real list" where
  "transformCoords (a # b # rest) offsetX offsetY scale =
     (a * scale + offsetX) # (b * scale + offsetY) # transformCoords rest offsetX offsetY scale"
| "transformCoords _ offsetX offsetY scale = []"

fun transformCmd :: "real \<Rightarrow> real \<Rightarrow> real \<Rightarrow> pathcmd \<Rightarrow> pathcmd" where
  "transformCmd offsetX offsetY scale (PathCmd c coords) =
     PathCmd c (transformCoords coords offsetX offsetY scale)"

definition transformPathString :: "svgpath \<Rightarrow> real \<Rightarrow> real \<Rightarrow> real \<Rightarrow> svgpath" where
  "transformPathString pathStr offsetX offsetY scale = map (transformCmd offsetX offsetY scale) pathStr"

text \<open>The placeholder of \<open>getCharacterPath\<close>: a closed rectangle of 15 by 25 units, scaled.\<close>

definition placeholderPath :: "real \<Rightarrow> real \<Rightarrow> real \<Rightarrow> svgpath" where
  "placeholderPath x y scale =
     [PathCmd CHR ''M'' [x, y],
      PathCmd CHR ''L'' [x + 15 * scale, y],
      PathCmd CHR ''L'' [x + 15 * scale, y + 25 * scale],
      PathCmd CHR ''L'' [x, y + 25 * scale],
      PathCmd CHR ''Z'' []]"

text \<open>
  \<open>LETTER_PATHS[char] || LETTER_PATHS[char.toUpperCase()]\<close>: an array, even an empty one,
  is truthy, so the upper-case form is looked up only when the character has no entry.
\<close>

definition lookupPaths :: "jsstring \<Rightarrow> svgpath list option" where
  "lookupPaths char =
     (case LETTER_PATHS char of Some paths \<Rightarrow> Some paths
      | None \<Rightarrow> LETTER_PATHS (toUpperCase char))"

definition getCharacterPath :: "jsstring \<Rightarrow> real \<Rightarrow> real \<Rightarrow> real \<Rightarrow> svgpath list" where
  "getCharacterPath char x y scale =
     (case lookupPaths char of
        None \<Rightarrow> (if char \<noteq> ustr '' '' then [placeholderPath x y scale] else [])
      | Some paths \<Rightarrow>
          (if paths = [] then (if char \<noteq> ustr '' '' then [placeholderPath x y scale] else [])
           else map (\<lambda>path. transformPathString path x y scale) paths))"

text \<open>\<open>estimatePathLength\<close>: 40 per command letter, at least 60.\<close>

definition estimatePathLength :: "svgpath \<Rightarrow> real" where
  "estimatePathLength pathDef = max (real (length pathDef) * 40) 60"

text \<open>
  \<open>textToPathSegments\<close>: the loop over the characters, with the pen's \<open>currentX\<close> and the
  segments pushed so far.
\<close>

fun textLoop :: "jsstring list \<Rightarrow> real \<Rightarrow> real \<Rightarrow> real \<Rightarrow> PathSegment list \<Rightarrow> PathSegment list" where
  "textLoop [] currentX baseY scale segments = segments"
| "textLoop (char # rest) currentX baseY scale segments =
     (if char = ustr '' '' then textLoop rest (currentX + 16 * scale) baseY scale segments
      else textLoop rest (currentX + 28 * scale) baseY scale
             (segments @ map (\<lambda>path. \<lparr>d = path, seglength = estimatePathLength path\<rparr>)
                           (getCharacterPath char currentX baseY scale)))"

definition textToPathSegments :: "jsstring \<Rightarrow> Position \<Rightarrow> real \<Rightarrow> PathSegment list" where
  "textToPathSegments text startPos scale = textLoop (jsChars text) (px startPos) (py startPos) scale []"

section \<open>Stroke compiler (TextStrokeCompiler)\<close>

datatype DrawingSpeed = Slow | Medium | Fast

record Stroke =
  spath :: svgpath
  sduration :: real
  pressure :: real

fun durationPerChar :: "DrawingSpeed \<Rightarrow> real" where
  "durationPerChar Slow = 0.15"
| "durationPerChar Medium = 0.1"
| "durationPerChar Fast = 0.06"

fun strokeLoop :: "PathSegment list \<Rightarrow> real \<Rightarrow> Stroke list \<Rightarrow> Stroke list" where
  "strokeLoop [] perChar strokes = strokes"
| "strokeLoop (segment # rest) perChar strokes =
     (let estimatedLength = seglength segment;
          duration = max 0.1 (min (estimatedLength * perChar / 100) 0.5)
      in strokeLoop rest perChar (strokes @ [\<lparr>spath = d segment, sduration = duration, pressure = 1.0\<rparr>]))"

definition compile :: "jsstring \<Rightarrow> Position \<Rightarrow> real \<Rightarrow> DrawingSpeed \<Rightarrow> Stroke list" where
  "compile text position fontSize speed =
     (let scale = fontSize / 30;
          segments = textToPathSegments text position scale
      in strokeLoop segments (durationPerChar speed) [])"

section \<open>Path generators (textToPath.ts)\<close>

text \<open>\<open>Math.atan2\<close> on finite arguments (signed zeros are not distinguished).\<close>

definition atan2 :: "real \<Rightarrow> real \<Rightarrow> real" where
  "atan2 y x =
     (if 0 < x then arctan (y / x)
      else if x < 0 then (if 0 \<le> y then arctan (y / x) + pi else arctan (y / x) - pi)
      else if 0 < y then pi / 2
      else if y < 0 then - pi / 2
      else 0)"

definition generateCirclePath :: "real \<Rightarrow> real \<Rightarrow> real \<Rightarrow> svgpath" where
  "generateCirclePath centerX centerY radius =
     (let r = radius; k = 0.552284749831 in
      [PathCmd CHR ''M'' [centerX, centerY - r],
       PathCmd CHR ''C'' [centerX + r * k, centerY - r, centerX + r, centerY - r * k, centerX + r, centerY],
       PathCmd CHR ''C'' [centerX + r, centerY + r * k, centerX + r * k, centerY + r, centerX, centerY + r],
       PathCmd CHR ''C'' [centerX - r * k, centerY + r, centerX - r, centerY + r * k, centerX - r, centerY],
       PathCmd CHR ''C'' [centerX - r, centerY - r * k, centerX - r * k, centerY - r, centerX, centerY - r]])"

definition generateArrowPath :: "Position \<Rightarrow> Position \<Rightarrow> real \<Rightarrow> svgpath \<times> svgpath" where
  "generateArrowPath from to curve =
     (let midX = (px from + px to) / 2;
          midY = (py from + py to) / 2;
          dx = px to - px from;
          dy = py to - py from;
          perpX = - dy * curve;
          perpY = dx * curve;
          controlX = midX + perpX;
          controlY = midY + perpY;
          linePath = (if curve = 0
                      then [PathCmd CHR ''M'' [px from, py from], PathCmd CHR ''L'' [px to, py to]]
                      else [PathCmd CHR ''M'' [px from, py from], PathCmd CHR ''Q'' [controlX, controlY, px to, py to]]);
          angle = atan2 (py to - (if curve = 0 then py from else controlY))
                        (px to - (if curve = 0 then px from else controlX));
          headLength = 14;
          headAngle = pi / 6;
          head1X = px to - headLength * cos (angle - headAngle);
          head1Y = py to - headLength * sin (angle - headAngle);
          head2X = px to - headLength * cos (angle + headAngle);
          head2Y = py to - headLength * sin (angle + headAngle);
          headPath = [PathCmd CHR ''M'' [head1X, head1Y], PathCmd CHR ''L'' [px to, py to],
                      PathCmd CHR ''L'' [head2X, head2Y]]
      in (linePath, headPath))"

section \<open>Drawing actions and scenes (types/whiteboard)\<close>

datatype DrawingActionType =
  Write | Draw | Circle | Arrow | Underline | Box | Highlight | Erase | Image | Pause

record CameraPoint =
  camX :: real
  camY :: real
  zoom :: real

text \<open>
  A \<open>DrawingAction\<close>. An absent optional field is \<open>None\<close>. The random \<open>id\<close> is left out.
  The last seven fields are the keys of \<open>metadata\<close> that the compiler writes or the
  engine reads.
\<close>

record DrawingAction =
  atype :: DrawingActionType
  startTime :: real
  duration :: real
  atext :: "jsstring option"
  fontSize :: "real option"
  position :: "Position option"
  color :: "string option"
  path :: "svgpath option"
  start :: "Position option"
  aend :: "Position option"
  radius :: "real option"
  imageUrl :: "jsstring option"
  targetId :: "jsstring option"
  speed :: "DrawingSpeed option"
  handVisible :: "bool option"
  strokeWidth :: "real option"
  opacity :: "real option"
  width :: "real option"
  height :: "real option"
  strokes :: "Stroke list option"
  strokeSequence :: "(svgpath \<times> real) list option"
  cameraMove :: "(CameraPoint \<times> CameraPoint) option"

definition blankAction :: "DrawingActionType \<Rightarrow> real \<Rightarrow> real \<Rightarrow> DrawingAction" where
  "blankAction ty st du =
     \<lparr>atype = ty, startTime = st, duration = du, atext = None, fontSize = None, position = None,
      color = None, path = None, start = None, aend = None, radius = None, imageUrl = None,
      targetId = None, speed = None, handVisible = None, strokeWidth = None, opacity = None,
      width = None, height = None, strokes = None, strokeSequence = None, cameraMove = None\<rparr>"

record WhiteboardScene =
  background :: string
  actions :: "DrawingAction list"
  narration :: jsstring
  totalDuration :: jsnum

section \<open>Timeline allocator (class Timeline)\<close>

record Timeline =
  currentTime :: real
  cameraBusyUntil :: real

definition safeDuration :: "jsnum \<Rightarrow> real" where
  "safeDuration dur =
     (if isNaN dur \<or> \<not> isFinite dur then 0.5
      else (case dur of Num v \<Rightarrow> max 0.1 v | _ \<Rightarrow> 0.5))"

text \<open>\<open>nextAvailableSlot\<close> returns the slot's start and the timeline it leaves behind.\<close>

definition nextAvailableSlot :: "Timeline \<Rightarrow> jsnum \<Rightarrow> bool \<Rightarrow> bool \<Rightarrow> real \<times> Timeline" where
  "nextAvailableSlot this dur needsCamera narrationPause =
     (let slotStart0 = (if needsCamera then max (currentTime this) (cameraBusyUntil this) else currentTime this);
          slotStart = (if narrationPause then slotStart0 + 0.3 else slotStart0);
          slotEnd = slotStart + safeDuration dur + 0.1;
          this1 = this\<lparr>currentTime := slotEnd\<rparr>;
          this2 = (if needsCamera then this1\<lparr>cameraBusyUntil := slotEnd\<rparr> else this1)
      in (slotStart, this2))"

definition reset :: Timeline where
  "reset = \<lparr>currentTime = 0, cameraBusyUntil = 0\<rparr>"

definition getCurrentTime :: "Timeline \<Rightarrow> real" where
  "getCurrentTime this = currentTime this"

section \<open>Scene compiler (WhiteboardSceneGenerator)\<close>

text \<open>
  The keys of a content item's \<open>style\<close> that the compiler and the engine read. A value of
  \<open>x\<close> or \<open>y\<close> is absent, a number, or a string; a string is represented by the number
  that \<open>parseFloat\<close> reads from it once \<open>%\<close> is removed and it is trimmed.
\<close>

datatype posval = Undefined | Number jsnum | Str jsnum

record Style =
  styleX :: posval
  styleY :: posval
  styleWidth :: "real option"
  styleHeight :: "real option"

datatype ContentType = Heading | Text | Bullet | Icon | ImageItem | OtherType

record ContentItem =
  ctype :: ContentType
  content :: jsstring
  style :: "Style option"
  iconName :: "jsstring option"
  itemImageUrl :: "jsstring option"

record Slide =
  slideDuration :: jsnum
  slideContent :: "ContentItem list"
  voiceScript :: jsstring

datatype EmphasisMethod = ByCircle | ByUnderline | ByHighlight

datatype SemanticAction =
    IntroduceConcept jsstring "Position option" bool "Style option"
  | ExplainRelation jsstring jsstring "Position option" "Position option"
  | Emphasize jsstring EmphasisMethod
  | PauseForThinking real
  | Transition jsstring

definition parsePosition :: "posval \<Rightarrow> real \<Rightarrow> real \<Rightarrow> real" where
  "parsePosition v maxv defaultValue =
     (case v of
        Undefined \<Rightarrow> defaultValue
      | Number n \<Rightarrow> (case n of Num r \<Rightarrow> r | _ \<Rightarrow> defaultValue)
      | Str n \<Rightarrow> (case n of Num percent \<Rightarrow> (percent / 100) * maxv | _ \<Rightarrow> defaultValue))"

text \<open>
  \<open>createStrokeSequenceAction\<close> compiles the text, sums the stroke durations with
  \<open>reduce\<close>, reserves a slot of that length after a narration pause, and stores the
  strokes in the action's metadata.
\<close>

definition createStrokeSequenceAction ::
  "jsstring \<Rightarrow> Position \<Rightarrow> real \<Rightarrow> Timeline \<Rightarrow> DrawingSpeed \<Rightarrow> DrawingAction \<times> Timeline" where
  "createStrokeSequenceAction txt pos fsize timeline spd =
     (let strks = compile txt pos fsize spd;
          total = foldl (\<lambda>sum stroke. sum + sduration stroke) 0 strks;
          (startT, timeline') = nextAvailableSlot timeline (Num total) False True;
          col0 = (if 48 \<le> fsize then ''#2c3e50'' else if 36 \<le> fsize then ''#34495e'' else ''#2c3e50'');
          col = (if 48 \<le> fsize then ''#8b2118'' else col0)
      in ((blankAction Write startT total)
            \<lparr>atext := Some txt, fontSize := Some fsize, position := Some pos, color := Some col,
             path := Some [], speed := Some spd, handVisible := Some True,
             strokeWidth := Some (max 2 (fsize * 0.05)), strokes := Some strks\<rparr>,
          timeline'))"

definition createArrowStrokes :: "Position \<Rightarrow> Position \<Rightarrow> real \<Rightarrow> DrawingAction" where
  "createArrowStrokes from to startT =
     (let (linePath, headPath) = generateArrowPath from to 0;
          lineDuration = 0.8;
          headDuration = 0.7
      in (blankAction Draw startT (lineDuration + headDuration))
           \<lparr>path := Some (linePath @ headPath), start := Some from, aend := Some to,
            color := Some ''#1a1a1a'', speed := Some Medium, handVisible := Some True,
            strokeWidth := Some 3,
            strokeSequence := Some [(linePath, lineDuration), (headPath, headDuration)]\<rparr>)"

definition createEmphasisAction :: "jsstring \<Rightarrow> EmphasisMethod \<Rightarrow> real \<Rightarrow> DrawingAction" where
  "createEmphasisAction target method startT =
     (let pos = \<lparr>px = 960, py = 540\<rparr>; rad = 100 in
      case method of
        ByCircle \<Rightarrow>
          (blankAction Circle startT 1.0)
            \<lparr>path := Some (generateCirclePath (px pos) (py pos) rad), position := Some pos,
             radius := Some rad, color := Some ''#4a9eff'', speed := Some Medium,
             handVisible := Some True, strokeWidth := Some 3\<rparr>
      | ByUnderline \<Rightarrow>
          (blankAction Underline startT 0.8)
            \<lparr>targetId := Some target, color := Some ''#ff6b6b'', speed := Some Medium,
             handVisible := Some True, strokeWidth := Some 4\<rparr>
      | ByHighlight \<Rightarrow>
          (blankAction Highlight startT 0.5)
            \<lparr>targetId := Some target, color := Some ''#ffeb3b'', speed := Some Fast,
             handVisible := Some False, opacity := Some 0.3\<rparr>)"

definition createCameraAction :: "Position \<Rightarrow> Position \<Rightarrow> real \<Rightarrow> DrawingAction" where
  "createCameraAction from to startT =
     (blankAction Pause startT 1.2)
       \<lparr>handVisible := Some False,
        cameraMove := Some (\<lparr>camX = px from / 1920, camY = py from / 1080, zoom = 1\<rparr>,
                            \<lparr>camX = px to / 1920, camY = py to / 1080, zoom = 1\<rparr>)\<rparr>"

definition createImageAction :: "jsstring \<Rightarrow> Position \<Rightarrow> real \<Rightarrow> Style option \<Rightarrow> DrawingAction" where
  "createImageAction url pos startT metadata =
     (blankAction Image startT 2.0)
       \<lparr>position := Some pos, handVisible := Some True, imageUrl := Some url,
        width := (case metadata of None \<Rightarrow> None | Some st \<Rightarrow> styleWidth st),
        height := (case metadata of None \<Rightarrow> None | Some st \<Rightarrow> styleHeight st)\<rparr>"

text \<open>
  \<open>semanticToStrokes\<close>: one semantic action becomes its drawing actions, each start time
  taken from the timeline. The \<open>switch\<close> has no case for \<open>transition\<close>.
\<close>

fun semanticToStrokes :: "SemanticAction \<Rightarrow> Timeline \<Rightarrow> DrawingAction list \<times> Timeline" where
  "semanticToStrokes (IntroduceConcept concept posOpt isExplicitVisual metadata) timeline =
     (let visualPos = (case posOpt of None \<Rightarrow> \<lparr>px = 960, py = 540\<rparr> | Some p \<Rightarrow> p);
          textPos = visualPos;
          isImage = startsWith concept (ustr ''[IMAGE:'');
          shouldWriteText = (if isImage then False else \<not> isExplicitVisual);
          (actions1, timeline1) =
            (if isImage then
               (let url = removeFirst (ustr '']'') (removeFirst (ustr ''[IMAGE: '') concept);
                    (startT, tm) = nextAvailableSlot timeline (Num 2.0) False False
                in ([createImageAction url visualPos startT metadata], tm))
             else ([], timeline));
          (actions2, timeline2) =
            (if shouldWriteText then
               (let (strokeSeq, tm) = createStrokeSequenceAction concept textPos 48 timeline1 Medium
                in (actions1 @ [strokeSeq], tm))
             else (actions1, timeline1));
          pauseStart = getCurrentTime timeline2;
          pauseAction = (blankAction Pause pauseStart 0.5)\<lparr>handVisible := Some False\<rparr>;
          (unused, timeline3) = nextAvailableSlot timeline2 (Num 0.5) False False
      in (actions2 @ [pauseAction], timeline3))"
| "semanticToStrokes (ExplainRelation fromText toText fromOpt toOpt) timeline =
     (let fromPos = (case fromOpt of None \<Rightarrow> \<lparr>px = 500, py = 400\<rparr> | Some p \<Rightarrow> p);
          toPos = (case toOpt of None \<Rightarrow> \<lparr>px = 1420, py = 400\<rparr> | Some p \<Rightarrow> p);
          (fromStroke, timeline1) = createStrokeSequenceAction fromText fromPos 36 timeline Medium;
          (actions2, timeline2) =
            (if 400 < \<bar>px toPos - px fromPos\<bar> then
               (let (startT, tm) = nextAvailableSlot timeline1 (Num 1.2) True False
                in ([fromStroke, createCameraAction fromPos toPos startT], tm))
             else ([fromStroke], timeline1));
          (arrowStart, timeline3) = nextAvailableSlot timeline2 (Num 1.5) False False;
          arrowStrokes = createArrowStrokes fromPos toPos arrowStart;
          (toStroke, timeline4) = createStrokeSequenceAction toText toPos 36 timeline3 Medium
      in (actions2 @ [arrowStrokes, toStroke], timeline4))"
| "semanticToStrokes (Emphasize target method) timeline =
     (let (startT, timeline1) = nextAvailableSlot timeline (Num 1.0) False False
      in ([createEmphasisAction target method startT], timeline1))"
| "semanticToStrokes (PauseForThinking dur) timeline =
     (let (startT, timeline1) = nextAvailableSlot timeline (Num dur) False False
      in ([(blankAction Pause startT dur)\<lparr>handVisible := Some False\<rparr>], timeline1))"
| "semanticToStrokes (Transition target) timeline = ([], timeline)"

declare semanticToStrokes.simps [simp del]

text \<open>\<open>contentItemToSemantic\<close>: the semantic actions of one content item.\<close>

definition itemPosition :: "Style option \<Rightarrow> Position" where
  "itemPosition st =
     \<lparr>px = parsePosition (case st of None \<Rightarrow> Undefined | Some s \<Rightarrow> styleX s) 1920 960,
      py = parsePosition (case st of None \<Rightarrow> Undefined | Some s \<Rightarrow> styleY s) 1080 540\<rparr>"

definition contentItemToSemantic :: "ContentItem \<Rightarrow> SemanticAction list" where
  "contentItemToSemantic contentItem =
     (if ctype contentItem = Heading \<or> ctype contentItem = Text \<or> ctype contentItem = Bullet then
        (let txt = (if ctype contentItem = Bullet then [8226, 32] @ content contentItem
                    else content contentItem);
             pos = itemPosition (style contentItem)
         in IntroduceConcept txt (Some pos) False None
            # (if ctype contentItem = Heading then [PauseForThinking 0.8] else []))
      else if ctype contentItem = Icon then
        [IntroduceConcept
           (case iconName contentItem of None \<Rightarrow> ustr ''icon''
            | Some n \<Rightarrow> if n = [] then ustr ''icon'' else n)
           (Some (itemPosition (style contentItem))) True (style contentItem)]
      else if ctype contentItem = ImageItem then
        (case itemImageUrl contentItem of
           None \<Rightarrow> []
         | Some url \<Rightarrow>
             if url = [] then []
             else [IntroduceConcept (ustr ''[IMAGE: '' @ url @ ustr '']'')
                     (Some (itemPosition (style contentItem))) True (style contentItem)])
      else [])"

text \<open>The two nested loops of \<open>convertSlidesToWhiteboardScenes\<close> over one slide's content.\<close>

fun semanticsLoop ::
  "SemanticAction list \<Rightarrow> DrawingAction list \<Rightarrow> Timeline \<Rightarrow> DrawingAction list \<times> Timeline" where
  "semanticsLoop [] acts timeline = (acts, timeline)"
| "semanticsLoop (semantic # rest) acts timeline =
     (let (new, timeline') = semanticToStrokes semantic timeline
      in semanticsLoop rest (acts @ new) timeline')"

fun contentLoop ::
  "ContentItem list \<Rightarrow> DrawingAction list \<Rightarrow> Timeline \<Rightarrow> DrawingAction list \<times> Timeline" where
  "contentLoop [] acts timeline = (acts, timeline)"
| "contentLoop (contentItem # rest) acts timeline =
     (let (acts', timeline') = semanticsLoop (contentItemToSemantic contentItem) acts timeline
      in contentLoop rest acts' timeline')"

text \<open>Decimal digits of a number, for the template \<open>Concept n\<close>.\<close>

fun digits :: "nat \<Rightarrow> jsstring" where
  "digits n = (if n < 10 then [48 + n] else digits (n div 10) @ [48 + n mod 10])"

declare digits.simps [simp del]

text \<open>
  The body of the loop of \<open>convertSlidesToWhiteboardScenes\<close> for one slide; \<open>count\<close> is the
  number of scenes built before it. The timeline is reset first.
\<close>

definition convertSlide :: "Slide \<Rightarrow> nat \<Rightarrow> WhiteboardScene" where
  "convertSlide slide count =
     (let timeline = reset;
          contentItems = slideContent slide;
          (acts1, timeline1) =
            (if contentItems = [] then
               (let sub = take 50 (voiceScript slide);
                    defaultText = (if sub = [] then ustr ''Concept '' @ digits (count + 1) else sub)
                in semanticToStrokes
                     (IntroduceConcept defaultText (Some \<lparr>px = 960, py = 540\<rparr>) False None) timeline)
             else contentLoop contentItems [] timeline);
          (acts2, timeline2) =
            (if acts1 = [] then
               (let (defaultAction, tm) =
                      createStrokeSequenceAction (ustr ''Loading...'') \<lparr>px = 960, py = 540\<rparr> 48 timeline1 Medium
                in (acts1 @ [defaultAction], tm))
             else (acts1, timeline1));
          total =
            (if acts2 \<noteq> [] then
               (let lastAction = last acts2;
                    actionEndTime = Num (startTime lastAction + duration lastAction);
                    safeTotalDuration =
                      (if isNaN actionEndTime \<or> \<not> isFinite actionEndTime
                       then orElse (slideDuration slide) (Num 5)
                       else jsmax actionEndTime (orElse (slideDuration slide) (Num 5)))
                in jsmax (Num 0.5) safeTotalDuration)
             else slideDuration slide)
      in \<lparr>background = ''whiteboard'', actions = acts2, narration = voiceScript slide, totalDuration = total\<rparr>)"

fun slidesLoop :: "Slide list \<Rightarrow> WhiteboardScene list \<Rightarrow> WhiteboardScene list" where
  "slidesLoop [] scenes = scenes"
| "slidesLoop (slide # rest) scenes = slidesLoop rest (scenes @ [convertSlide slide (length scenes)])"

definition convertSlidesToWhiteboardScenes :: "Slide list \<Rightarrow> WhiteboardScene list" where
  "convertSlidesToWhiteboardScenes slides = slidesLoop slides []"

section \<open>Action state evaluator (WhiteboardEngine)\<close>

record PathPoint =
  ptX :: real
  ptY :: real
  progress :: real
  time :: real

record HandData =
  handPos :: Position
  angle :: real

text \<open>
  The hand that \<open>getHandPosition\<close> returns. Its coordinates can be \<open>NaN\<close>: the progress
  of an action of duration 0 is 0 / 0.
\<close>

record HandPoint =
  hx :: jsnum
  hy :: jsnum

record HandResult =
  hposition :: HandPoint
  hangle :: real

record ActionAnimationState =
  stateAction :: DrawingAction
  currentProgress :: real
  pathPoints :: "PathPoint list"
  isComplete :: bool
  handPosition :: "HandPoint option"
  handAngle :: "real option"

text \<open>
  \<open>calculatePathPoints\<close> measures the path with the browser's SVG implementation and
  returns the empty list when that fails. It is a parameter of the model, \<open>calc\<close>, taking
  the path and the duration.
\<close>

type_synonym sampler = "svgpath \<Rightarrow> real \<Rightarrow> PathPoint list"

text \<open>
  The point of a sampled path at a progress, with the angle from the previous point (or to
  the next one at the start). A negative index reads \<open>undefined\<close>, the access throws, and
  the \<open>catch\<close> lets the caller go on: \<open>None\<close>.
\<close>

definition pointAt :: "PathPoint list \<Rightarrow> real \<Rightarrow> HandData option" where
  "pointAt pts prog =
     (let pointIndex = min (int (length pts) - 1) \<lfloor>prog * (real (length pts) - 1)\<rfloor> in
      if pointIndex < 0 then None
      else
        (let point = pts ! nat pointIndex;
             ang = (if 0 < pointIndex then
                      (let prevPoint = pts ! nat (pointIndex - 1)
                       in atan2 (ptY point - ptY prevPoint) (ptX point - ptX prevPoint))
                    else if 1 < length pts then
                      (let nextPoint = pts ! 1
                       in atan2 (ptY nextPoint - ptY point) (ptX nextPoint - ptX point))
                    else 0)
         in Some \<lparr>handPos = \<lparr>px = ptX point, py = ptY point\<rparr>, angle = ang\<rparr>))"

text \<open>\<open>stroke.duration || 0.1\<close>.\<close>

definition strokeDur :: "Stroke \<Rightarrow> real" where
  "strokeDur s = (if sduration s = 0 then 0.1 else sduration s)"

text \<open>
  The loop of \<open>getHandPosition\<close> over the strokes of a write action: \<open>cur\<close> is the time at
  which the stroke starts. The angle of a text stroke is forced to 0.
\<close>

fun strokeScan :: "sampler \<Rightarrow> Stroke list \<Rightarrow> real \<Rightarrow> real \<Rightarrow> HandData option" where
  "strokeScan calc [] cur currentDrawTime = None"
| "strokeScan calc (stroke # rest) cur currentDrawTime =
     (let strokeStart = cur;
          strokeEnd = cur + strokeDur stroke
      in if strokeStart \<le> currentDrawTime \<and> currentDrawTime \<le> strokeEnd then
           (let strokeProgress = (currentDrawTime - strokeStart) / strokeDur stroke;
                pts = calc (spath stroke) (strokeDur stroke)
            in if pts \<noteq> [] then
                 (case pointAt pts strokeProgress of
                    Some h \<Rightarrow> Some (h\<lparr>angle := 0\<rparr>)
                  | None \<Rightarrow> strokeScan calc rest strokeEnd currentDrawTime)
               else strokeScan calc rest strokeEnd currentDrawTime)
         else strokeScan calc rest strokeEnd currentDrawTime)"

text \<open>\<open>text.length\<close> counts UTF-16 code units. \<open>x || 48\<close> on an optional number.\<close>

definition orDefault :: "real option \<Rightarrow> real \<Rightarrow> real" where
  "orDefault v dflt = (case v of None \<Rightarrow> dflt | Some r \<Rightarrow> if r = 0 then dflt else r)"

definition truthyPath :: "svgpath option \<Rightarrow> bool" where
  "truthyPath p = (p \<noteq> None \<and> p \<noteq> Some [])"

text \<open>
  The branch of \<open>getHandPosition\<close> for a write action with a text and a position: the point
  of the live stroke, or else the estimate from the number of characters shown.
\<close>

definition handOnWrite :: "sampler \<Rightarrow> DrawingAction \<Rightarrow> jsstring \<Rightarrow> Position \<Rightarrow> real \<Rightarrow> HandData" where
  "handOnWrite calc action txt pos actionProgress =
     (let found =
            (case strokes action of
               None \<Rightarrow> None
             | Some strks \<Rightarrow>
                 if strks = [] then None
                 else
                   (let totalDur = foldl (\<lambda>sum s. sum + strokeDur s) 0 strks;
                        currentDrawTime = totalDur * actionProgress
                    in strokeScan calc strks 0 currentDrawTime))
      in case found of
           Some h \<Rightarrow> h
         | None \<Rightarrow>
             (let charsToShow = real_of_int \<lfloor>real (length txt) * actionProgress\<rfloor>;
                  charWidth = orDefault (fontSize action) 48 * 0.6;
                  textWidth = charsToShow * charWidth
              in \<lparr>handPos = \<lparr>px = px pos + textWidth, py = py pos + orDefault (fontSize action) 48 / 2\<rparr>,
                  angle = 0\<rparr>))"

text \<open>The branch for an action with a path: \<open>None\<close> when sampling gives no point.\<close>

definition handOnPath :: "sampler \<Rightarrow> DrawingAction \<Rightarrow> real \<Rightarrow> HandData option" where
  "handOnPath calc action actionProgress =
     (if truthyPath (path action) then
        (let pts = calc (the (path action)) (duration action)
         in if pts \<noteq> [] then pointAt pts actionProgress else None)
      else None)"

definition handOnArrow :: "Position \<Rightarrow> Position \<Rightarrow> real \<Rightarrow> HandData" where
  "handOnArrow st en actionProgress =
     (let dx = px en - px st;
          dy = py en - py st;
          distance = sqrt (dx * dx + dy * dy);
          currentDistance = distance * actionProgress;
          ang = atan2 dy dx
      in \<lparr>handPos = \<lparr>px = px st + cos ang * currentDistance, py = py st + sin ang * currentDistance\<rparr>,
          angle = ang\<rparr>)"

definition handOnImage :: "DrawingAction \<Rightarrow> Position \<Rightarrow> real \<Rightarrow> HandData" where
  "handOnImage action pos actionProgress =
     (let w = orDefault (width action) 400;
          h = orDefault (height action) 300;
          startX = px pos - w / 2;
          startY = py pos - h / 2;
          p = actionProgress
      in \<lparr>handPos = \<lparr>px = startX + w * p, py = startY + h * p\<rparr>, angle = pi / 4\<rparr>)"

text \<open>A hand computed at a finite progress has finite coordinates.\<close>

definition finiteHand :: "HandData \<Rightarrow> HandResult" where
  "finiteHand h = \<lparr>hposition = \<lparr>hx = Num (px (handPos h)), hy = Num (py (handPos h))\<rparr>, hangle = angle h\<rparr>"

text \<open>
  The branches of \<open>getHandPosition\<close> at a progress that is \<open>NaN\<close>. In the write branch no
  stroke is live (every comparison with \<open>NaN\<close> is false) and the estimate from the number
  of characters has a \<open>NaN\<close> x. In the path branch the index is \<open>NaN\<close>, the point read is
  \<open>undefined\<close>, and the \<open>catch\<close> lets the later branches run. The arrow and image
  branches multiply by the progress, so both coordinates are \<open>NaN\<close>.
\<close>

definition handAtNaN :: "DrawingAction \<Rightarrow> HandResult option" where
  "handAtNaN action =
     (if atype action = Write \<and> atext action \<noteq> None \<and> atext action \<noteq> Some []
         \<and> position action \<noteq> None
      then Some \<lparr>hposition = \<lparr>hx = NaN,
                                hy = Num (py (the (position action)) + orDefault (fontSize action) 48 / 2)\<rparr>,
                 hangle = 0\<rparr>
      else if atype action = Arrow \<and> start action \<noteq> None \<and> aend action \<noteq> None
      then Some \<lparr>hposition = \<lparr>hx = NaN, hy = NaN\<rparr>,
                 hangle = atan2 (py (the (aend action)) - py (the (start action)))
                                (px (the (aend action)) - px (the (start action)))\<rparr>
      else if atype action = Image \<and> position action \<noteq> None
      then Some \<lparr>hposition = \<lparr>hx = NaN, hy = NaN\<rparr>, hangle = pi / 4\<rparr>
      else (case position action of
              Some pos \<Rightarrow> Some \<lparr>hposition = \<lparr>hx = Num (px pos), hy = Num (py pos)\<rparr>, hangle = 0\<rparr>
            | None \<Rightarrow> None))"

text \<open>
  \<open>getHandPosition\<close> tries the branches in the order of the code. It divides by the
  action's duration. Inside the action's interval the duration is 0 only at the start
  time, where the code computes 0 / 0: that case is \<open>handAtNaN\<close>. A negative duration
  leaves no time inside the interval.
\<close>

definition getHandPosition :: "sampler \<Rightarrow> DrawingAction \<Rightarrow> real \<Rightarrow> real \<Rightarrow> HandResult option" where
  "getHandPosition calc action curTime sceneStartTime =
     (let actionStartTime = sceneStartTime + startTime action;
          actionEndTime = actionStartTime + duration action
      in if curTime < actionStartTime \<or> actionEndTime < curTime then None
         else if duration action = 0 then handAtNaN action
         else
           (let actionProgress = min 1 (max 0 ((curTime - actionStartTime) / duration action))
            in if atype action = Write \<and> atext action \<noteq> None \<and> atext action \<noteq> Some []
                  \<and> position action \<noteq> None
               then Some (finiteHand
                      (handOnWrite calc action (the (atext action)) (the (position action)) actionProgress))
               else
                 (case handOnPath calc action actionProgress of
                    Some h \<Rightarrow> Some (finiteHand h)
                  | None \<Rightarrow>
                      if atype action = Arrow \<and> start action \<noteq> None \<and> aend action \<noteq> None
                      then Some (finiteHand
                             (handOnArrow (the (start action)) (the (aend action)) actionProgress))
                      else if atype action = Image \<and> position action \<noteq> None
                      then Some (finiteHand (handOnImage action (the (position action)) actionProgress))
                      else (case position action of
                              Some pos \<Rightarrow> Some (finiteHand \<lparr>handPos = pos, angle = 0\<rparr>)
                            | None \<Rightarrow> None))))"

text \<open>
  \<open>getActionState\<close> divides only between the start and the end of the action, where the
  duration is positive.
\<close>

definition getActionState :: "sampler \<Rightarrow> DrawingAction \<Rightarrow> real \<Rightarrow> real \<Rightarrow> ActionAnimationState" where
  "getActionState calc action curTime sceneStartTime =
     (let actionStartTime = sceneStartTime + startTime action;
          actionEndTime = actionStartTime + duration action;
          (prog, complete) =
            (if curTime < actionStartTime then (0, False)
             else if actionEndTime \<le> curTime then (1, True)
             else ((curTime - actionStartTime) / duration action, False));
          pts = (if truthyPath (path action) then calc (the (path action)) (duration action) else []);
          handData = (if handVisible action \<noteq> Some False
                      then getHandPosition calc action curTime sceneStartTime else None)
      in \<lparr>stateAction = action, currentProgress = prog, pathPoints = pts, isComplete = complete,
          handPosition = map_option hposition handData, handAngle = map_option hangle handData\<rparr>)"

section \<open>Notions used to state the properties\<close>

text \<open>The half-open time interval an action occupies, and whether it is a camera move.\<close>

definition interval :: "DrawingAction \<Rightarrow> real set" where
  "interval a = {startTime a ..< startTime a + duration a}"

definition requiresCameraMove :: "DrawingAction \<Rightarrow> bool" where
  "requiresCameraMove a = (cameraMove a \<noteq> None)"

text \<open>
  Actions that follow one another between two times: each starts no earlier than the
  previous one ends (or starts, if its duration is negative), and the last ends by \<open>hi\<close>.
\<close>

fun chained :: "real \<Rightarrow> DrawingAction list \<Rightarrow> real \<Rightarrow> bool" where
  "chained lo [] hi = (lo \<le> hi)"
| "chained lo (a # rest) hi =
     (lo \<le> startTime a \<and> chained (max (startTime a) (startTime a + duration a)) rest hi)"

text \<open>
  Actions whose timeline slots follow one another: each starts no earlier than the
  previous one's start plus the clamped duration \<open>max 0.1 duration\<close> plus the gap 0.1.
\<close>

fun slotted :: "real \<Rightarrow> DrawingAction list \<Rightarrow> real \<Rightarrow> bool" where
  "slotted lo [] hi = (lo \<le> hi)"
| "slotted lo (a # rest) hi =
     (lo \<le> startTime a \<and> slotted (startTime a + max 0.1 (duration a) + 0.1) rest hi)"

text \<open>The clamp of a value between a lower and an upper bound.\<close>

definition clamp :: "real \<Rightarrow> real \<Rightarrow> real \<Rightarrow> real" where
  "clamp v lo hi = (if v < lo then lo else if hi < v then hi else v)"

text \<open>
  The corners named by the commands of a path that carry one point, and the area of the
  polygon through them (shoelace formula).
\<close>

fun cmdPoint :: "pathcmd \<Rightarrow> (real \<times> real) list" where
  "cmdPoint (PathCmd c [x, y]) = [(x, y)]"
| "cmdPoint _ = []"

fun crossSum :: "(real \<times> real) list \<Rightarrow> real" where
  "crossSum ((x1, y1) # (x2, y2) # rest) = x1 * y2 - x2 * y1 + crossSum ((x2, y2) # rest)"
| "crossSum _ = 0"

definition enclosedArea :: "svgpath \<Rightarrow> real" where
  "enclosedArea p =
     (let vs = concat (map cmdPoint p)
      in if vs = [] then 0 else \<bar>crossSum (vs @ [hd vs])\<bar> / 2)"

text \<open>
  The semantic actions that \<open>convertSlide\<close> hands to \<open>semanticToStrokes\<close> for a slide: the
  default concept when the slide has no content, else those of its content items.
\<close>

definition slideIntents :: "Slide \<Rightarrow> nat \<Rightarrow> SemanticAction list" where
  "slideIntents slide count =
     (if slideContent slide = [] then
        (let sub = take 50 (voiceScript slide);
             defaultText = (if sub = [] then ustr ''Concept '' @ digits (count + 1) else sub)
         in [IntroduceConcept defaultText (Some \<lparr>px = 960, py = 540\<rparr>) False None])
      else concat (map contentItemToSemantic (slideContent slide)))"

text \<open>A pause of positive length: the only pauses \<open>contentItemToSemantic\<close> asks for.\<close>

fun positivePause :: "SemanticAction \<Rightarrow> bool" where
  "positivePause (PauseForThinking dur) = (0 < dur)"
| "positivePause _ = True"

section \<open>Example inputs\<close>

text \<open>
  A slide whose only item is the heading \<open>#\<close> (a character without a glyph), a slide
  whose only item is the text of one space, and a slide whose only item has a type the
  compiler does not know.
\<close>

definition hashSlide :: Slide where
  "hashSlide = \<lparr>slideDuration = Num 5,
                 slideContent = [\<lparr>ctype = Heading, content = [35], style = None, iconName = None, itemImageUrl = None\<rparr>],
                 voiceScript = []\<rparr>"

definition blankSlide :: Slide where
  "blankSlide = \<lparr>slideDuration = Num 5,
                 slideContent = [\<lparr>ctype = Text, content = [32], style = None, iconName = None, itemImageUrl = None\<rparr>],
                 voiceScript = []\<rparr>"

definition unknownSlide :: Slide where
  "unknownSlide = \<lparr>slideDuration = NaN,
                 slideContent = [\<lparr>ctype = OtherType, content = [], style = None, iconName = None, itemImageUrl = None\<rparr>],
                 voiceScript = []\<rparr>"

text \<open>An action that starts at 1 and lasts 2, and an arrow from (0, 0) to (100, 0) without a path.\<close>

definition pauseExample :: DrawingAction where
  "pauseExample = blankAction Pause 1 2"

definition arrowExample :: DrawingAction where
  "arrowExample = (blankAction Arrow 1 2)\<lparr>start := Some \<lparr>px = 0, py = 0\<rparr>, aend := Some \<lparr>px = 100, py = 0\<rparr>\<rparr>"

definition noSampler :: sampler where
  "noSampler p dur = []"

section \<open>Auxiliary lemmas\<close>

lemma safeDuration_pos: "0.1 \<le> safeDuration dur"
  by (cases dur) (simp_all add: safeDuration_def)

lemma safeDuration_Num: "safeDuration (Num v) = max 0.1 v"
  by (simp add: safeDuration_def)

lemma foldl_sduration: "foldl (\<lambda>sum stroke. sum + sduration stroke) acc xs = acc + sum_list (map sduration xs)"
  by (induction xs arbitrary: acc) simp_all

lemma strokeLoop_eq:
  "strokeLoop segs pc acc =
     acc @ map (\<lambda>seg. \<lparr>spath = d seg, sduration = max 0.1 (min (seglength seg * pc / 100) 0.5), pressure = 1\<rparr>) segs"
  by (induction segs arbitrary: acc) (simp_all add: Let_def)

lemma compile_durations: "s \<in> set (compile txt pos fs spd) \<Longrightarrow> 0.1 \<le> sduration s \<and> sduration s \<le> 0.5"
  by (auto simp: compile_def Let_def strokeLoop_eq)

lemma compile_positive: "s \<in> set (compile txt pos fs spd) \<Longrightarrow> 0 < sduration s"
  using compile_durations[of s "txt" pos fs spd] by linarith

lemma sum_list_nonneg_strokes: "(\<And>s. s \<in> set xs \<Longrightarrow> 0 < sduration s) \<Longrightarrow> 0 \<le> sum_list (map sduration xs)"
proof (induction xs)
  case Nil then show ?case by simp
next
  case (Cons a xs)
  have "0 < sduration a" using Cons.prems by simp
  moreover have "0 \<le> sum_list (map sduration xs)" using Cons by simp
  ultimately show ?case by simp
qed

lemma sum_list_pos_strokes: "(\<And>s. s \<in> set xs \<Longrightarrow> 0 < sduration s) \<Longrightarrow> xs \<noteq> [] \<Longrightarrow> 0 < sum_list (map sduration xs)"
proof (induction xs)
  case Nil then show ?case by simp
next
  case (Cons a xs)
  have "0 < sduration a" using Cons.prems(1) by simp
  moreover have "0 \<le> sum_list (map sduration xs)"
    using Cons.prems(1) by (intro sum_list_nonneg_strokes) simp
  ultimately show ?case by simp
qed

lemma slot_fst_ge: "currentTime tm \<le> fst (nextAvailableSlot tm dur cam np)"
  by (auto simp: nextAvailableSlot_def Let_def max_def)

lemma slot_snd_time: "currentTime (snd (nextAvailableSlot tm dur cam np)) = fst (nextAvailableSlot tm dur cam np) + safeDuration dur + 0.1"
  by (simp add: nextAvailableSlot_def Let_def)

lemma chained_mono: "chained lo acts hi \<Longrightarrow> lo' \<le> lo \<Longrightarrow> chained lo' acts hi"
  by (cases acts) auto

lemma chained_append: "chained lo xs mid \<Longrightarrow> chained mid ys hi \<Longrightarrow> chained lo (xs @ ys) hi"
  by (induction xs arbitrary: lo) (auto intro: chained_mono)

lemma chained_starts: "chained lo acts hi \<Longrightarrow> a \<in> set acts \<Longrightarrow> lo \<le> startTime a"
proof (induction acts arbitrary: lo)
  case Nil then show ?case by simp
next
  case (Cons b rest)
  show ?case
  proof (cases "a = b")
    case True then show ?thesis using Cons.prems by simp
  next
    case False
    then have "a \<in> set rest" using Cons.prems by simp
    moreover have "chained (max (startTime b) (startTime b + duration b)) rest hi" using Cons.prems by simp
    ultimately have "max (startTime b) (startTime b + duration b) \<le> startTime a" by (rule Cons.IH[rotated])
    then show ?thesis using Cons.prems by simp
  qed
qed

lemma chained_disjoint:
  "chained lo acts hi \<Longrightarrow> i < j \<Longrightarrow> j < length acts \<Longrightarrow> interval (acts ! i) \<inter> interval (acts ! j) = {}"
proof (induction acts arbitrary: lo i j)
  case Nil then show ?case by simp
next
  case (Cons b rest)
  have ch: "chained (max (startTime b) (startTime b + duration b)) rest hi" using Cons.prems by simp
  obtain j' where j': "j = Suc j'" using Cons.prems(2) by (cases j) auto
  show ?case
  proof (cases i)
    case 0
    have "rest ! j' \<in> set rest" using Cons.prems(3) j' by simp
    then have "max (startTime b) (startTime b + duration b) \<le> startTime (rest ! j')"
      using chained_starts[OF ch] by blast
    then show ?thesis using 0 j' by (auto simp: interval_def)
  next
    case (Suc i')
    then show ?thesis using Cons.IH[OF ch, of i' j'] Cons.prems j' by simp
  qed
qed

lemma createStroke_timing:
  assumes "createStrokeSequenceAction txt pos fs tm spd = (a, tm')"
  shows "currentTime tm \<le> startTime a" and "0 \<le> duration a"
    and "startTime a + duration a \<le> currentTime tm'"
    and "atype a = Write" and "cameraMove a = None"
    and "strokes a = Some (compile txt pos fs spd)"
    and "duration a = sum_list (map sduration (compile txt pos fs spd))"
proof -
  let ?total = "sum_list (map sduration (compile txt pos fs spd))"
  have nn: "0 \<le> ?total" by (rule sum_list_nonneg_strokes) (rule compile_positive)
  have a: "a = (blankAction Write (fst (nextAvailableSlot tm (Num ?total) False True)) ?total)
            \<lparr>atext := Some txt, fontSize := Some fs, position := Some pos,
              color := Some (if 48 \<le> fs then ''#8b2118'' else if 48 \<le> fs then ''#2c3e50'' else if 36 \<le> fs then ''#34495e'' else ''#2c3e50''),
             path := Some [], speed := Some spd, handVisible := Some True,
             strokeWidth := Some (max 2 (fs * 0.05)), strokes := Some (compile txt pos fs spd)\<rparr>"
    and t: "tm' = snd (nextAvailableSlot tm (Num ?total) False True)"
    using assms by (auto simp: createStrokeSequenceAction_def Let_def foldl_sduration split: prod.splits)
  show "currentTime tm \<le> startTime a" by (simp add: a blankAction_def slot_fst_ge)
  show "0 \<le> duration a" using nn by (simp add: a blankAction_def)
  show "startTime a + duration a \<le> currentTime tm'"
    by (simp add: a t blankAction_def slot_snd_time safeDuration_Num)
  show "atype a = Write" "cameraMove a = None" "strokes a = Some (compile txt pos fs spd)"
    "duration a = ?total"
    by (simp_all add: a blankAction_def)
qed


lemma blank_timing [simp]:
  "startTime (blankAction ty st du) = st" "duration (blankAction ty st du) = du"
  "cameraMove (blankAction ty st du) = None" "strokes (blankAction ty st du) = None"
  "atype (blankAction ty st du) = ty"
  by (simp_all add: blankAction_def)

lemma image_timing [simp]:
  "startTime (createImageAction u p st m) = st" "duration (createImageAction u p st m) = 2"
  "cameraMove (createImageAction u p st m) = None" "strokes (createImageAction u p st m) = None"
  "atype (createImageAction u p st m) = Image"
  by (simp_all add: createImageAction_def)

lemma camera_timing [simp]:
  "startTime (createCameraAction f t st) = st" "duration (createCameraAction f t st) = 1.2"
  "strokes (createCameraAction f t st) = None" "atype (createCameraAction f t st) = Pause"
  by (simp_all add: createCameraAction_def)

lemma arrow_timing [simp]:
  "startTime (createArrowStrokes f t st) = st" "duration (createArrowStrokes f t st) = 1.5"
  "cameraMove (createArrowStrokes f t st) = None" "strokes (createArrowStrokes f t st) = None"
  "atype (createArrowStrokes f t st) = Draw"
  by (simp_all add: createArrowStrokes_def Let_def split: prod.splits)

lemma emphasis_timing:
  "startTime (createEmphasisAction tg m st) = st"
  "0 < duration (createEmphasisAction tg m st)" "duration (createEmphasisAction tg m st) \<le> 1"
  "cameraMove (createEmphasisAction tg m st) = None" "strokes (createEmphasisAction tg m st) = None"
  "atype (createEmphasisAction tg m st) \<noteq> Write"
  by (cases m; simp add: createEmphasisAction_def Let_def)+

text \<open>The shape of a slot reservation.\<close>

lemma slot_cases:
  obtains s tm' where "nextAvailableSlot tm dur cam np = (s, tm')" "currentTime tm \<le> s"
    "currentTime tm' = s + safeDuration dur + 0.1"
proof -
  show ?thesis
    by (rule that[of "fst (nextAvailableSlot tm dur cam np)" "snd (nextAvailableSlot tm dur cam np)"])
       (simp_all add: slot_fst_ge slot_snd_time)
qed

lemma semanticToStrokes_chained:
  assumes "semanticToStrokes sem tm = (acts, tm')"
  shows "chained (currentTime tm) acts (currentTime tm')"
proof (cases sem)
  case (IntroduceConcept concept posOpt vis meta)
  define vp where "vp = (case posOpt of None \<Rightarrow> \<lparr>px = 960, py = 540\<rparr> | Some p \<Rightarrow> p)"
  define isImage where "isImage = startsWith concept (ustr ''[IMAGE:'')"
  define url where "url = removeFirst (ustr '']'') (removeFirst (ustr ''[IMAGE: '') concept)"
  obtain s1 t1 where s1: "nextAvailableSlot tm (Num 2.0) False False = (s1, t1)"
      "currentTime tm \<le> s1" "currentTime t1 = s1 + safeDuration (Num 2.0) + 0.1"
    by (rule slot_cases)
  define acts1 where "acts1 = (if isImage then [createImageAction url vp s1 meta] else [])"
  define tA where "tA = (if isImage then t1 else tm)"
  have c1: "chained (currentTime tm) acts1 (currentTime tA)"
    using s1 by (simp add: acts1_def tA_def safeDuration_Num)
  obtain w tw where w: "createStrokeSequenceAction concept vp 48 tA Medium = (w, tw)"
    by (cases "createStrokeSequenceAction concept vp 48 tA Medium")
  note wt = createStroke_timing[OF w]
  define doWrite where "doWrite = (\<not> isImage \<and> \<not> vis)"
  define acts2 where "acts2 = (if doWrite then acts1 @ [w] else acts1)"
  define tB where "tB = (if doWrite then tw else tA)"
  have c2: "chained (currentTime tm) acts2 (currentTime tB)"
  proof (cases doWrite)
    case True
    have "chained (currentTime tA) [w] (currentTime tw)" using wt(1-3) by simp
    then show ?thesis using True c1 by (simp add: acts2_def tB_def chained_append)
  next
    case False then show ?thesis using c1 by (simp add: acts2_def tB_def)
  qed
  obtain s3 t3 where s3: "nextAvailableSlot tB (Num 0.5) False False = (s3, t3)"
      "currentTime tB \<le> s3" "currentTime t3 = s3 + safeDuration (Num 0.5) + 0.1"
    by (rule slot_cases)
  have s3eq: "s3 = currentTime tB" using s3(1) by (simp add: nextAvailableSlot_def Let_def)
  have res: "acts = acts2 @ [(blankAction Pause (currentTime tB) 0.5)\<lparr>handVisible := Some False\<rparr>]" "tm' = t3"
    using assms IntroduceConcept s1(1) w s3(1)
    by (auto simp: semanticToStrokes.simps Let_def vp_def isImage_def url_def acts1_def tA_def doWrite_def acts2_def tB_def getCurrentTime_def
             split: if_splits)
  have "chained (currentTime tB) [(blankAction Pause (currentTime tB) 0.5)\<lparr>handVisible := Some False\<rparr>] (currentTime t3)"
    using s3(3) s3eq by (simp add: safeDuration_Num)
  then show ?thesis using c2 res by (simp add: chained_append)
next
  case (ExplainRelation fromText toText fromOpt toOpt)
  define fp where "fp = (case fromOpt of None \<Rightarrow> \<lparr>px = 500, py = 400\<rparr> | Some p \<Rightarrow> p)"
  define tp where "tp = (case toOpt of None \<Rightarrow> \<lparr>px = 1420, py = 400\<rparr> | Some p \<Rightarrow> p)"
  obtain w1 t1 where w1: "createStrokeSequenceAction fromText fp 36 tm Medium = (w1, t1)"
    by (cases "createStrokeSequenceAction fromText fp 36 tm Medium")
  note w1t = createStroke_timing[OF w1]
  obtain s2 t2 where s2: "nextAvailableSlot t1 (Num 1.2) True False = (s2, t2)"
      "currentTime t1 \<le> s2" "currentTime t2 = s2 + safeDuration (Num 1.2) + 0.1"
    by (rule slot_cases)
  define far where "far = (400 < \<bar>px tp - px fp\<bar>)"
  define acts2 where "acts2 = (if far then [w1, createCameraAction fp tp s2] else [w1])"
  define tB where "tB = (if far then t2 else t1)"
  have c2: "chained (currentTime tm) acts2 (currentTime tB)"
    using w1t(1-3) s2(2,3) by (auto simp: acts2_def tB_def safeDuration_Num)
  obtain s3 t3 where s3: "nextAvailableSlot tB (Num 1.5) False False = (s3, t3)"
      "currentTime tB \<le> s3" "currentTime t3 = s3 + safeDuration (Num 1.5) + 0.1"
    by (rule slot_cases)
  obtain w4 t4 where w4: "createStrokeSequenceAction toText tp 36 t3 Medium = (w4, t4)"
    by (cases "createStrokeSequenceAction toText tp 36 t3 Medium")
  note w4t = createStroke_timing[OF w4]
  have res: "acts = acts2 @ [createArrowStrokes fp tp s3, w4]" "tm' = t4"
    using assms ExplainRelation w1 s2(1) s3(1) w4
    by (auto simp: semanticToStrokes.simps Let_def fp_def tp_def far_def acts2_def tB_def split: if_splits)
  have "chained (currentTime tB) [createArrowStrokes fp tp s3, w4] (currentTime t4)"
    using s3(2,3) w4t(1-3) by (simp add: safeDuration_Num)
  then show ?thesis using c2 res by (simp add: chained_append)
next
  case (Emphasize target how)
  obtain s1 t1 where s1: "nextAvailableSlot tm (Num 1.0) False False = (s1, t1)"
      "currentTime tm \<le> s1" "currentTime t1 = s1 + safeDuration (Num 1.0) + 0.1"
    by (rule slot_cases)
  have res: "acts = [createEmphasisAction target how s1]" "tm' = t1"
    using assms Emphasize s1(1) by (auto simp: semanticToStrokes.simps)
  show ?thesis
    using s1(2,3) emphasis_timing(1-3)[of target how s1]
    by (simp add: res safeDuration_Num)
next
  case (PauseForThinking du)
  obtain s1 t1 where s1: "nextAvailableSlot tm (Num du) False False = (s1, t1)"
      "currentTime tm \<le> s1" "currentTime t1 = s1 + safeDuration (Num du) + 0.1"
    by (rule slot_cases)
  have res: "acts = [(blankAction Pause s1 du)\<lparr>handVisible := Some False\<rparr>]" "tm' = t1"
    using assms PauseForThinking s1(1) by (auto simp: semanticToStrokes.simps)
  show ?thesis
    using s1(2,3) by (simp add: res safeDuration_Num)
next
  case (Transition target)
  then show ?thesis using assms by (auto simp: semanticToStrokes.simps)
qed


lemma semanticToStrokes_kinds:
  assumes "semanticToStrokes sem tm = (acts, tm')" and "a \<in> set acts"
  shows "(\<exists>str pos fs t spd. a = fst (createStrokeSequenceAction str pos fs t spd))
       \<or> (atype a \<noteq> Write \<and> strokes a = None \<and> (positivePause sem \<longrightarrow> 0 < duration a))"
proof (cases sem)
  case (IntroduceConcept concept posOpt vis meta)
  then show ?thesis using assms
    by (auto simp: semanticToStrokes.simps Let_def split: prod.splits if_splits) (metis fst_conv)+
next
  case (ExplainRelation fromText toText fromOpt toOpt)
  then show ?thesis using assms
    by (auto simp: semanticToStrokes.simps Let_def split: prod.splits if_splits) (metis fst_conv)+
next
  case (Emphasize target how)
  then show ?thesis using assms emphasis_timing[of target how]
    by (auto simp: semanticToStrokes.simps Let_def split: prod.splits)
next
  case (PauseForThinking du)
  then show ?thesis using assms by (auto simp: semanticToStrokes.simps Let_def split: prod.splits)
next
  case (Transition target)
  then show ?thesis using assms by (auto simp: semanticToStrokes.simps)
qed

lemma semanticsLoop_chained:
  "semanticsLoop sems acts tm = (acts', tm') \<Longrightarrow> chained lo acts (currentTime tm)
   \<Longrightarrow> chained lo acts' (currentTime tm')"
proof (induction sems arbitrary: acts tm)
  case Nil then show ?case by simp
next
  case (Cons sem rest)
  obtain new t1 where st: "semanticToStrokes sem tm = (new, t1)" by (cases "semanticToStrokes sem tm")
  have "chained lo (acts @ new) (currentTime t1)"
    using Cons.prems(2) semanticToStrokes_chained[OF st] by (rule chained_append)
  moreover have "semanticsLoop rest (acts @ new) t1 = (acts', tm')" using Cons.prems(1) st by simp
  ultimately show ?case using Cons.IH by blast
qed

lemma semanticsLoop_kinds:
  "semanticsLoop sems acts tm = (acts', tm') \<Longrightarrow> a \<in> set acts'
   \<Longrightarrow> a \<in> set acts \<or> (\<exists>sem t new t'. sem \<in> set sems \<and> semanticToStrokes sem t = (new, t') \<and> a \<in> set new)"
proof (induction sems arbitrary: acts tm)
  case Nil then show ?case by simp
next
  case (Cons sem rest)
  obtain new t1 where st: "semanticToStrokes sem tm = (new, t1)" by (cases "semanticToStrokes sem tm")
  have "semanticsLoop rest (acts @ new) t1 = (acts', tm')" using Cons.prems(1) st by simp
  from Cons.IH[OF this Cons.prems(2)]
  consider "a \<in> set acts" | "a \<in> set new"
    | sem2 t new2 t' where "sem2 \<in> set rest" "semanticToStrokes sem2 t = (new2, t')" "a \<in> set new2"
    by auto
  then show ?case
  proof cases
    case 1 then show ?thesis by simp
  next
    case 2
    have "sem \<in> set (sem # rest)" by simp
    then show ?thesis using st 2 by blast
  next
    case 3
    have "sem2 \<in> set (sem # rest)" using 3(1) by simp
    then show ?thesis using 3(2,3) by blast
  qed
qed

lemma semanticsLoop_append:
  "semanticsLoop (xs @ ys) acts tm = (case semanticsLoop xs acts tm of (acts1, t1) \<Rightarrow> semanticsLoop ys acts1 t1)"
  by (induction xs arbitrary: acts tm) (auto split: prod.splits)

lemma contentLoop_concat:
  "contentLoop items acts tm = semanticsLoop (concat (map contentItemToSemantic items)) acts tm"
  by (induction items arbitrary: acts tm) (auto simp: semanticsLoop_append split: prod.splits)

lemma convertSlide_actions:
  "actions (convertSlide slide n) =
     (case semanticsLoop (slideIntents slide n) [] reset of
        (acts1, t1) \<Rightarrow>
          if acts1 = []
          then [fst (createStrokeSequenceAction (ustr ''Loading...'') \<lparr>px = 960, py = 540\<rparr> 48 t1 Medium)]
          else acts1)"
  by (auto simp: convertSlide_def slideIntents_def Let_def contentLoop_concat split: prod.splits)

lemma slideIntents_positive: "sem \<in> set (slideIntents slide n) \<Longrightarrow> positivePause sem"
  by (auto simp: slideIntents_def Let_def contentItemToSemantic_def split: if_splits option.splits)

lemma convertSlide_chained: "\<exists>hi. chained 0 (actions (convertSlide slide n)) hi"
proof -
  obtain acts1 t1 where l: "semanticsLoop (slideIntents slide n) [] reset = (acts1, t1)"
    by (cases "semanticsLoop (slideIntents slide n) [] reset")
  have c: "chained 0 acts1 (currentTime t1)"
    using semanticsLoop_chained[OF l, of 0] by (simp add: reset_def)
  show ?thesis
  proof (cases "acts1 = []")
    case False then show ?thesis using c l by (auto simp: convertSlide_actions)
  next
    case True
    obtain w tw where w: "createStrokeSequenceAction (ustr ''Loading...'') \<lparr>px = 960, py = 540\<rparr> 48 t1 Medium = (w, tw)"
      by (cases "createStrokeSequenceAction (ustr ''Loading...'') \<lparr>px = 960, py = 540\<rparr> 48 t1 Medium")
    have "0 \<le> currentTime t1" using c True by simp
    then have "chained 0 [w] (currentTime tw)" using createStroke_timing(1-3)[OF w] by simp
    then show ?thesis using True l w by (auto simp: convertSlide_actions)
  qed
qed

lemma convertSlide_kinds:
  assumes "a \<in> set (actions (convertSlide slide n))"
  shows "(\<exists>str pos fs t spd. a = fst (createStrokeSequenceAction str pos fs t spd))
       \<or> (atype a \<noteq> Write \<and> strokes a = None \<and> 0 < duration a)"
proof -
  obtain acts1 t1 where l: "semanticsLoop (slideIntents slide n) [] reset = (acts1, t1)"
    by (cases "semanticsLoop (slideIntents slide n) [] reset")
  show ?thesis
  proof (cases "acts1 = []")
    case True
    then have "a = fst (createStrokeSequenceAction (ustr ''Loading...'') \<lparr>px = 960, py = 540\<rparr> 48 t1 Medium)"
      using assms l by (simp add: convertSlide_actions)
    then show ?thesis by blast
  next
    case False
    then have "a \<in> set acts1" using assms l by (simp add: convertSlide_actions)
    from semanticsLoop_kinds[OF l this]
    obtain sem t new t' where s: "sem \<in> set (slideIntents slide n)" "semanticToStrokes sem t = (new, t')" "a \<in> set new"
      by auto
    show ?thesis using semanticToStrokes_kinds[OF s(2,3)] slideIntents_positive[OF s(1)] by blast
  qed
qed

lemma scenes_are_converted:
  "sc \<in> set (slidesLoop slides scenes) \<Longrightarrow> sc \<in> set scenes \<or> (\<exists>slide n. sc = convertSlide slide n)"
proof (induction slides arbitrary: scenes)
  case Nil then show ?case by simp
next
  case (Cons slide rest)
  have "sc \<in> set (slidesLoop rest (scenes @ [convertSlide slide (length scenes)]))"
    using Cons.prems by simp
  from Cons.IH[OF this] show ?case by auto
qed

lemma progress_value:
  "currentProgress (getActionState calc a t s0) =
     (if t < s0 + startTime a then 0
      else if s0 + startTime a + duration a \<le> t then 1
      else (t - (s0 + startTime a)) / duration a)"
  by (simp add: getActionState_def Let_def)

lemma pathPoints_value:
  "pathPoints (getActionState calc a t s0) =
     (if truthyPath (path a) then calc (the (path a)) (duration a) else [])"
  by (simp add: getActionState_def Let_def split_def)

lemma hand_value:
  "handPosition (getActionState calc a t s0) =
     map_option hposition (if handVisible a \<noteq> Some False then getHandPosition calc a t s0 else None)"
  "handAngle (getActionState calc a t s0) =
     map_option hangle (if handVisible a \<noteq> Some False then getHandPosition calc a t s0 else None)"
  by (simp_all add: getActionState_def Let_def split_def)

lemma atan2_zero: "0 < x \<Longrightarrow> atan2 0 x = 0"
  by (simp add: atan2_def)

lemma lookup_hash: "LETTER_PATHS [35] = None"
  by (simp add: LETTER_PATHS_def LETTER_TABLE_def ustr_def)

lemma char_hash: "getCharacterPath [35] x y s = [placeholderPath x y s]"
  by (simp add: getCharacterPath_def lookupPaths_def lookup_hash toUpperCase_def upperUnit_def ustr_def)

lemma placeholder_length: "estimatePathLength (placeholderPath x y s) = 200"
  by (simp add: estimatePathLength_def placeholderPath_def)

lemma compile_hash:
  "compile [35] pos fs Medium = [\<lparr>spath = placeholderPath (px pos) (py pos) (fs / 30), sduration = 1 / 5, pressure = 1\<rparr>]"
  by (simp add: compile_def textToPathSegments_def Let_def char_hash placeholder_length ustr_def)

lemma compile_blank: "compile [32] pos fs spd = []"
  by (simp add: compile_def textToPathSegments_def Let_def ustr_def)

lemma hash_intents: "contentItemToSemantic \<lparr>ctype = Heading, content = [35], style = None, iconName = None, itemImageUrl = None\<rparr>
   = [IntroduceConcept [35] (Some \<lparr>px = 960, py = 540\<rparr>) False None, PauseForThinking 0.8]"
  by (simp add: contentItemToSemantic_def itemPosition_def parsePosition_def)

lemma hash_write:
  "createStrokeSequenceAction [35] \<lparr>px = 960, py = 540\<rparr> 48 reset Medium =
    ((blankAction Write 0.3 0.2)
            \<lparr>atext := Some [35], fontSize := Some 48, position := Some \<lparr>px = 960, py = 540\<rparr>, color := Some ''#8b2118'',
             path := Some [], speed := Some Medium, handVisible := Some True,
             strokeWidth := Some 2.4,
             strokes := Some [\<lparr>spath = placeholderPath 960 540 (48 / 30), sduration = 1 / 5, pressure = 1\<rparr>]\<rparr>,
     \<lparr>currentTime = 0.6, cameraBusyUntil = 0\<rparr>)"
  by (simp add: createStrokeSequenceAction_def compile_hash nextAvailableSlot_def safeDuration_def reset_def Let_def)

lemma hash_actions:
  "actions (convertSlide hashSlide 0) =
     [fst (createStrokeSequenceAction [35] \<lparr>px = 960, py = 540\<rparr> 48 reset Medium),
      (blankAction Pause 0.6 0.5)\<lparr>handVisible := Some False\<rparr>,
      (blankAction Pause 1.2 0.8)\<lparr>handVisible := Some False\<rparr>]"
  by (simp add: convertSlide_def hashSlide_def hash_intents semanticToStrokes.simps hash_write
        startsWith.simps ustr_def nextAvailableSlot_def safeDuration_def getCurrentTime_def Let_def)

lemma blank_actions:
  "actions (convertSlide blankSlide 0) =
     [(blankAction Write 0.3 0)
            \<lparr>atext := Some [32], fontSize := Some 48, position := Some \<lparr>px = 960, py = 540\<rparr>, color := Some ''#8b2118'',
             path := Some [], speed := Some Medium, handVisible := Some True,
             strokeWidth := Some 2.4, strokes := Some []\<rparr>,
      (blankAction Pause 0.5 0.5)\<lparr>handVisible := Some False\<rparr>]"
  by (simp add: convertSlide_def blankSlide_def contentItemToSemantic_def itemPosition_def parsePosition_def
        semanticToStrokes.simps createStrokeSequenceAction_def compile_blank reset_def
        startsWith.simps ustr_def nextAvailableSlot_def safeDuration_def getCurrentTime_def Let_def)

lemma lookup_dotless: "LETTER_PATHS [305] = None"
  by (simp add: LETTER_PATHS_def LETTER_TABLE_def ustr_def)

lemma lookup_I: "LETTER_PATHS [73] = Some [
      [PathCmd CHR ''M'' [0, 0], PathCmd CHR ''L'' [16, 0]],
      [PathCmd CHR ''M'' [8, 0], PathCmd CHR ''L'' [8, 30]],
      [PathCmd CHR ''M'' [0, 30], PathCmd CHR ''L'' [16, 30]]]"
  by (simp add: LETTER_PATHS_def LETTER_TABLE_def ustr_def)

lemma lookup_space: "LETTER_PATHS (ustr '' '') = Some []"
  by (simp add: LETTER_PATHS_def LETTER_TABLE_def ustr_def)

lemma placeholder_area: "enclosedArea (placeholderPath x y scale) = (15 * scale) * (25 * scale)"
  by (simp add: enclosedArea_def placeholderPath_def Let_def algebra_simps)

lemma textLoop_lengths:
  "(\<And>seg. seg \<in> set acc \<Longrightarrow> seglength seg = estimatePathLength (d seg))
   \<Longrightarrow> seg \<in> set (textLoop cs x y sc acc) \<Longrightarrow> seglength seg = estimatePathLength (d seg)"
proof (induction cs arbitrary: x acc)
  case Nil then show ?case by simp
next
  case (Cons c rest)
  show ?case
  proof (cases "c = ustr '' ''")
    case True
    then show ?thesis using Cons.prems Cons.IH[of acc "x + 16 * sc"] by simp
  next
    case False
    let ?acc = "acc @ map (\<lambda>path. \<lparr>d = path, seglength = estimatePathLength path\<rparr>) (getCharacterPath c x y sc)"
    have "\<And>s. s \<in> set ?acc \<Longrightarrow> seglength s = estimatePathLength (d s)"
      using Cons.prems(1) by auto
    moreover have "seg \<in> set (textLoop rest (x + 28 * sc) y sc ?acc)"
      using Cons.prems(2) False by simp
    ultimately show ?thesis by (rule Cons.IH)
  qed
qed

lemma clamp_max_min: "lo \<le> hi \<Longrightarrow> max lo (min v hi) = clamp v lo hi"
  by (auto simp: clamp_def max_def min_def)

lemma totalDuration_value:
  "totalDuration (convertSlide slide n) =
     (if actions (convertSlide slide n) \<noteq> [] then
        jsmax (Num 0.5)
          (jsmax (Num (startTime (last (actions (convertSlide slide n)))
                       + duration (last (actions (convertSlide slide n)))))
                 (orElse (slideDuration slide) (Num 5)))
      else slideDuration slide)"
  by (simp add: convertSlide_def Let_def split_def)

lemma jsmax_positive: "0 < h \<Longrightarrow> jsless (Num 0) (jsmax (Num h) (jsmax (Num e) (orElse sd (Num 5))))"
  by (cases sd) (auto simp: orElse_def max_def)

lemma total_positive: "jsless (Num 0) (totalDuration (convertSlide slide n))"
proof -
  have nonempty: "actions (convertSlide slide n) \<noteq> []"
    by (simp add: convertSlide_actions split: prod.splits)
  show ?thesis
    unfolding totalDuration_value using nonempty by (simp add: jsmax_positive)
qed

lemma sqrt_split: "x \<noteq> 0 \<Longrightarrow> sqrt (x * x + y * y) = \<bar>x\<bar> * sqrt (1 + (y / x)\<^sup>2)"
proof -
  assume x: "x \<noteq> 0"
  have "x * x + y * y = x\<^sup>2 * (1 + (y / x)\<^sup>2)"
    using x by (simp add: power2_eq_square field_simps)
  then have "sqrt (x * x + y * y) = sqrt (x\<^sup>2) * sqrt (1 + (y / x)\<^sup>2)"
    by (simp add: real_sqrt_mult)
  then show ?thesis by simp
qed

lemma sqrt_one_plus_pos: "0 < sqrt (1 + (z::real)\<^sup>2)"
  by (simp add: add_pos_nonneg)

lemma atan2_cos: "cos (atan2 y x) * sqrt (x * x + y * y) = x"
proof -
  consider (pos) "0 < x" | (neg) "x < 0" | (zero) "x = 0" by linarith
  then show ?thesis
  proof cases
    case pos
    then show ?thesis
      using sqrt_one_plus_pos[of "y / x"]
      by (simp add: atan2_def cos_arctan sqrt_split)
  next
    case neg
    then show ?thesis
      using sqrt_one_plus_pos[of "y / x"]
      by (simp add: atan2_def cos_arctan sqrt_split)
  next
    case zero
    then show ?thesis by (simp add: atan2_def)
  qed
qed

lemma atan2_sin: "sin (atan2 y x) * sqrt (x * x + y * y) = y"
proof -
  consider (pos) "0 < x" | (neg) "x < 0" | (zero) "x = 0" by linarith
  then show ?thesis
  proof cases
    case pos
    then show ?thesis
      using sqrt_one_plus_pos[of "y / x"]
      by (simp add: atan2_def sin_arctan sqrt_split)
  next
    case neg
    then show ?thesis
      using sqrt_one_plus_pos[of "y / x"]
      by (simp add: atan2_def sin_arctan sqrt_split)
  next
    case zero
    then show ?thesis by (auto simp: atan2_def)
  qed
qed

lemma handOnArrow_linear:
  "handOnArrow st en p =
     \<lparr>handPos = \<lparr>px = px st + p * (px en - px st), py = py st + p * (py en - py st)\<rparr>,
      angle = atan2 (py en - py st) (px en - px st)\<rparr>"
proof -
  let ?dx = "px en - px st" and ?dy = "py en - py st"
  have "cos (atan2 ?dy ?dx) * (sqrt (?dx * ?dx + ?dy * ?dy) * p) = p * ?dx"
    using atan2_cos[of ?dy ?dx] by (simp add: mult.assoc[symmetric] mult.commute)
  moreover have "sin (atan2 ?dy ?dx) * (sqrt (?dx * ?dx + ?dy * ?dy) * p) = p * ?dy"
    using atan2_sin[of ?dy ?dx] by (simp add: mult.assoc[symmetric] mult.commute)
  ultimately show ?thesis by (simp add: handOnArrow_def Let_def)
qed

lemma createStroke_slot:
  assumes "createStrokeSequenceAction str pos fs tm spd = (a, tm')"
  shows "currentTime tm' = startTime a + max 0.1 (duration a) + 0.1"
proof -
  let ?total = "sum_list (map sduration (compile str pos fs spd))"
  have "startTime a = fst (nextAvailableSlot tm (Num ?total) False True)"
    and "duration a = ?total"
    and "tm' = snd (nextAvailableSlot tm (Num ?total) False True)"
    using assms by (auto simp: createStrokeSequenceAction_def Let_def foldl_sduration blankAction_def split: prod.splits)
  then show ?thesis by (simp add: slot_snd_time safeDuration_Num)
qed

lemma slotted_mono: "slotted lo acts hi \<Longrightarrow> lo' \<le> lo \<Longrightarrow> slotted lo' acts hi"
  by (cases acts) auto

lemma slotted_append: "slotted lo xs mid \<Longrightarrow> slotted mid ys hi \<Longrightarrow> slotted lo (xs @ ys) hi"
  by (induction xs arbitrary: lo) (auto intro: slotted_mono)

lemma slotted_next:
  "slotted lo acts hi \<Longrightarrow> Suc i < length acts
   \<Longrightarrow> startTime (acts ! i) + max 0.1 (duration (acts ! i)) + 0.1 \<le> startTime (acts ! Suc i)"
proof (induction acts arbitrary: lo i)
  case Nil then show ?case by simp
next
  case (Cons b rest)
  have ch: "slotted (startTime b + max 0.1 (duration b) + 0.1) rest hi" using Cons.prems by simp
  show ?case
  proof (cases i)
    case 0
    obtain c rest' where r: "rest = c # rest'" using Cons.prems(2) 0 by (cases rest) auto
    then show ?thesis using ch 0 by simp
  next
    case (Suc i')
    then show ?thesis using Cons.IH[OF ch, of i'] Cons.prems(2) by simp
  qed
qed

lemma semanticToStrokes_slotted:
  assumes "semanticToStrokes sem tm = (acts, tm')"
  shows "slotted (currentTime tm) acts (currentTime tm')"
proof (cases sem)
  case (IntroduceConcept concept posOpt vis meta)
  define vp where "vp = (case posOpt of None \<Rightarrow> \<lparr>px = 960, py = 540\<rparr> | Some p \<Rightarrow> p)"
  define isImage where "isImage = startsWith concept (ustr ''[IMAGE:'')"
  define url where "url = removeFirst (ustr '']'') (removeFirst (ustr ''[IMAGE: '') concept)"
  obtain s1 t1 where s1: "nextAvailableSlot tm (Num 2.0) False False = (s1, t1)"
      "currentTime tm \<le> s1" "currentTime t1 = s1 + safeDuration (Num 2.0) + 0.1"
    by (rule slot_cases)
  define acts1 where "acts1 = (if isImage then [createImageAction url vp s1 meta] else [])"
  define tA where "tA = (if isImage then t1 else tm)"
  have c1: "slotted (currentTime tm) acts1 (currentTime tA)"
    using s1 by (simp add: acts1_def tA_def safeDuration_Num)
  obtain w tw where w: "createStrokeSequenceAction concept vp 48 tA Medium = (w, tw)"
    by (cases "createStrokeSequenceAction concept vp 48 tA Medium")
  note wt = createStroke_timing[OF w] and ws = createStroke_slot[OF w]
  define doWrite where "doWrite = (\<not> isImage \<and> \<not> vis)"
  define acts2 where "acts2 = (if doWrite then acts1 @ [w] else acts1)"
  define tB where "tB = (if doWrite then tw else tA)"
  have c2: "slotted (currentTime tm) acts2 (currentTime tB)"
  proof (cases doWrite)
    case True
    have "slotted (currentTime tA) [w] (currentTime tw)" using wt(1) ws by simp
    then show ?thesis using True c1 by (simp add: acts2_def tB_def slotted_append)
  next
    case False then show ?thesis using c1 by (simp add: acts2_def tB_def)
  qed
  obtain s3 t3 where s3: "nextAvailableSlot tB (Num 0.5) False False = (s3, t3)"
      "currentTime tB \<le> s3" "currentTime t3 = s3 + safeDuration (Num 0.5) + 0.1"
    by (rule slot_cases)
  have s3eq: "s3 = currentTime tB" using s3(1) by (simp add: nextAvailableSlot_def Let_def)
  have res: "acts = acts2 @ [(blankAction Pause (currentTime tB) 0.5)\<lparr>handVisible := Some False\<rparr>]" "tm' = t3"
    using assms IntroduceConcept s1(1) w s3(1)
    by (auto simp: semanticToStrokes.simps Let_def vp_def isImage_def url_def acts1_def tA_def doWrite_def acts2_def tB_def getCurrentTime_def
             split: if_splits)
  have "slotted (currentTime tB) [(blankAction Pause (currentTime tB) 0.5)\<lparr>handVisible := Some False\<rparr>] (currentTime t3)"
    using s3(3) s3eq by (simp add: safeDuration_Num)
  then show ?thesis using c2 res by (simp add: slotted_append)
next
  case (ExplainRelation fromText toText fromOpt toOpt)
  define fp where "fp = (case fromOpt of None \<Rightarrow> \<lparr>px = 500, py = 400\<rparr> | Some p \<Rightarrow> p)"
  define tp where "tp = (case toOpt of None \<Rightarrow> \<lparr>px = 1420, py = 400\<rparr> | Some p \<Rightarrow> p)"
  obtain w1 t1 where w1: "createStrokeSequenceAction fromText fp 36 tm Medium = (w1, t1)"
    by (cases "createStrokeSequenceAction fromText fp 36 tm Medium")
  note w1t = createStroke_timing[OF w1] and w1s = createStroke_slot[OF w1]
  obtain s2 t2 where s2: "nextAvailableSlot t1 (Num 1.2) True False = (s2, t2)"
      "currentTime t1 \<le> s2" "currentTime t2 = s2 + safeDuration (Num 1.2) + 0.1"
    by (rule slot_cases)
  define far where "far = (400 < \<bar>px tp - px fp\<bar>)"
  define acts2 where "acts2 = (if far then [w1, createCameraAction fp tp s2] else [w1])"
  define tB where "tB = (if far then t2 else t1)"
  have c2: "slotted (currentTime tm) acts2 (currentTime tB)"
    using w1t(1) w1s s2(2,3) by (auto simp: acts2_def tB_def safeDuration_Num)
  obtain s3 t3 where s3: "nextAvailableSlot tB (Num 1.5) False False = (s3, t3)"
      "currentTime tB \<le> s3" "currentTime t3 = s3 + safeDuration (Num 1.5) + 0.1"
    by (rule slot_cases)
  obtain w4 t4 where w4: "createStrokeSequenceAction toText tp 36 t3 Medium = (w4, t4)"
    by (cases "createStrokeSequenceAction toText tp 36 t3 Medium")
  note w4t = createStroke_timing[OF w4] and w4s = createStroke_slot[OF w4]
  have res: "acts = acts2 @ [createArrowStrokes fp tp s3, w4]" "tm' = t4"
    using assms ExplainRelation w1 s2(1) s3(1) w4
    by (auto simp: semanticToStrokes.simps Let_def fp_def tp_def far_def acts2_def tB_def split: if_splits)
  have "slotted (currentTime tB) [createArrowStrokes fp tp s3, w4] (currentTime t4)"
    using s3(2,3) w4t(1) w4s by (simp add: safeDuration_Num)
  then show ?thesis using c2 res by (simp add: slotted_append)
next
  case (Emphasize target how)
  obtain s1 t1 where s1: "nextAvailableSlot tm (Num 1.0) False False = (s1, t1)"
      "currentTime tm \<le> s1" "currentTime t1 = s1 + safeDuration (Num 1.0) + 0.1"
    by (rule slot_cases)
  have res: "acts = [createEmphasisAction target how s1]" "tm' = t1"
    using assms Emphasize s1(1) by (auto simp: semanticToStrokes.simps)
  show ?thesis
    using s1(2,3) emphasis_timing(1-3)[of target how s1]
    by (simp add: res safeDuration_Num)
next
  case (PauseForThinking du)
  obtain s1 t1 where s1: "nextAvailableSlot tm (Num du) False False = (s1, t1)"
      "currentTime tm \<le> s1" "currentTime t1 = s1 + safeDuration (Num du) + 0.1"
    by (rule slot_cases)
  have res: "acts = [(blankAction Pause s1 du)\<lparr>handVisible := Some False\<rparr>]" "tm' = t1"
    using assms PauseForThinking s1(1) by (auto simp: semanticToStrokes.simps)
  show ?thesis
    using s1(2,3) by (simp add: res safeDuration_Num)
next
  case (Transition target)
  then show ?thesis using assms by (auto simp: semanticToStrokes.simps)
qed

lemma semanticsLoop_slotted:
  "semanticsLoop sems acts tm = (acts', tm') \<Longrightarrow> slotted lo acts (currentTime tm)
   \<Longrightarrow> slotted lo acts' (currentTime tm')"
proof (induction sems arbitrary: acts tm)
  case Nil then show ?case by simp
next
  case (Cons sem rest)
  obtain new t1 where st: "semanticToStrokes sem tm = (new, t1)" by (cases "semanticToStrokes sem tm")
  have "slotted lo (acts @ new) (currentTime t1)"
    using Cons.prems(2) semanticToStrokes_slotted[OF st] by (rule slotted_append)
  moreover have "semanticsLoop rest (acts @ new) t1 = (acts', tm')" using Cons.prems(1) st by simp
  ultimately show ?case using Cons.IH by blast
qed

lemma convertSlide_slotted: "\<exists>hi. slotted 0 (actions (convertSlide slide n)) hi"
proof -
  obtain acts1 t1 where l: "semanticsLoop (slideIntents slide n) [] reset = (acts1, t1)"
    by (cases "semanticsLoop (slideIntents slide n) [] reset")
  have c: "slotted 0 acts1 (currentTime t1)"
    using semanticsLoop_slotted[OF l, of 0] by (simp add: reset_def)
  show ?thesis
  proof (cases "acts1 = []")
    case False then show ?thesis using c l by (auto simp: convertSlide_actions)
  next
    case True
    obtain w tw where w: "createStrokeSequenceAction (ustr ''Loading...'') \<lparr>px = 960, py = 540\<rparr> 48 t1 Medium = (w, tw)"
      by (cases "createStrokeSequenceAction (ustr ''Loading...'') \<lparr>px = 960, py = 540\<rparr> 48 t1 Medium")
    have "0 \<le> currentTime t1" using c True by simp
    then have "slotted 0 [w] (currentTime tw)" using createStroke_timing(1)[OF w] createStroke_slot[OF w] by simp
    then show ?thesis using True l w by (auto simp: convertSlide_actions)
  qed
qed

text \<open>
  The write action of \<open>blankSlide\<close> has duration 0; at its start time the hand has a
  \<open>NaN\<close> x and the y of the text's middle line.
\<close>

lemma zero_duration_hand:
  "getHandPosition calc (hd (actions (convertSlide blankSlide 0))) 0.3 0 =
     Some \<lparr>hposition = \<lparr>hx = NaN, hy = Num 564\<rparr>, hangle = 0\<rparr>"
  by (simp add: blank_actions getHandPosition_def handAtNaN_def blankAction_def orDefault_def Let_def)

section \<open>Timeline allocator\<close>

text \<open>
  Claim C4. A call of \<open>nextAvailableSlot\<close> returns \<open>max cursor cameraBusyUntil\<close> when a
  camera move is needed and the cursor otherwise, plus 0.3 when a narration pause is
  asked for. The safe duration is 0.5 for a non-finite duration and \<open>max 0.1 duration\<close>
  for a finite one, so it is positive. The cursor moves to start + safe duration + 0.1,
  and \<open>cameraBusyUntil\<close> is set to that end when a camera move is needed and never
  decreases. Two successive camera reservations of duration 1.0: the second starts no
  earlier than the first start + 1.0 + 0.1.
\<close>

theorem timeline_allocator:
  "fst (nextAvailableSlot tm dur cam np) =
      (if cam then max (currentTime tm) (cameraBusyUntil tm) else currentTime tm)
      + (if np then 0.3 else 0)
   \<and> safeDuration dur = (case dur of Num v \<Rightarrow> max 0.1 v | _ \<Rightarrow> 0.5)
   \<and> 0 < safeDuration dur
   \<and> currentTime (snd (nextAvailableSlot tm dur cam np)) =
        fst (nextAvailableSlot tm dur cam np) + safeDuration dur + 0.1
   \<and> cameraBusyUntil (snd (nextAvailableSlot tm dur cam np)) =
        (if cam then currentTime (snd (nextAvailableSlot tm dur cam np)) else cameraBusyUntil tm)
   \<and> cameraBusyUntil tm \<le> cameraBusyUntil (snd (nextAvailableSlot tm dur cam np))
   \<and> fst (nextAvailableSlot tm (Num 1.0) True False) + 1.0 + 0.1
        \<le> fst (nextAvailableSlot (snd (nextAvailableSlot tm (Num 1.0) True False)) (Num 1.0) True False)
   \<and> cameraBusyUntil (snd (nextAvailableSlot tm (Num 1.0) True False))
        \<le> cameraBusyUntil (snd (nextAvailableSlot (snd (nextAvailableSlot tm (Num 1.0) True False)) (Num 1.0) True False))"
proof -
  have p: "0.1 \<le> safeDuration dur" by (rule safeDuration_pos)
  have s1: "safeDuration (Num 1.0) = 1" by (simp add: safeDuration_def)
  show ?thesis
    using p by (cases dur) (auto simp: nextAvailableSlot_def Let_def s1 safeDuration_def)
qed

text \<open>A camera reservation with a narration pause and a \<open>NaN\<close> duration, on a fresh timeline.\<close>

theorem timeline_allocator_witness:
  "fst (nextAvailableSlot reset NaN True True) = 0.3
   \<and> safeDuration NaN = 0.5
   \<and> currentTime (snd (nextAvailableSlot reset NaN True True)) = 0.9
   \<and> cameraBusyUntil (snd (nextAvailableSlot reset NaN True True)) = 0.9"
  using timeline_allocator[of reset NaN True True]
  by (simp add: reset_def safeDuration_def)

section \<open>Glyph lookup\<close>

text \<open>
  Claim C7, amended. For every character such that neither the character nor its
  upper-case form has an entry in the glyph table (the space has one, so it is not among
  them), and every anchor and positive scale, \<open>getCharacterPath\<close> returns exactly one
  stroke, the placeholder rectangle of 15 by 25 units times the scale, whose area is
  positive. The function is total: it has no failing branch.
\<close>

theorem unmapped_char_placeholder:
  assumes "LETTER_PATHS char = None" and "LETTER_PATHS (toUpperCase char) = None" and "0 < scale"
  shows "char \<noteq> ustr '' ''
       \<and> getCharacterPath char x y scale = [placeholderPath x y scale]
       \<and> enclosedArea (placeholderPath x y scale) = (15 * scale) * (25 * scale)
       \<and> 0 < enclosedArea (placeholderPath x y scale)"
proof -
  have ns: "char \<noteq> ustr '' ''" using assms(1) lookup_space by auto
  have "getCharacterPath char x y scale = [placeholderPath x y scale]"
    using assms(1,2) ns by (simp add: getCharacterPath_def lookupPaths_def)
  moreover have "0 < (15 * scale) * (25 * scale)" using assms(3) by simp
  ultimately show ?thesis using ns by (simp only: placeholder_area) simp
qed


text \<open>The character \<open>#\<close> at anchor (10, 20) and scale 2.\<close>

theorem unmapped_char_placeholder_witness:
  "LETTER_PATHS [35] = None \<and> LETTER_PATHS (toUpperCase [35]) = None \<and> (0::real) < 2
   \<and> getCharacterPath [35] 10 20 2 = [placeholderPath 10 20 2]
   \<and> enclosedArea (placeholderPath 10 20 2) = 1500"
  using unmapped_char_placeholder[of "[35]" 2 10 20]
  by (simp add: lookup_hash toUpperCase_def upperUnit_def)


text \<open>
  As first stated, for every character without an entry of its own, the property fails:
  the dotless i (U+0131) has no entry, its upper-case form is \<open>I\<close>, and the lookup
  returns the three strokes of \<open>I\<close>.
\<close>

theorem dotless_i_counterexample:
  "LETTER_PATHS [305] = None \<and> [305] \<noteq> ustr '' ''
   \<and> getCharacterPath [305] 0 0 1 \<noteq> [placeholderPath 0 0 1]
   \<and> length (getCharacterPath [305] 0 0 1) = 3"
  by (simp add: getCharacterPath_def lookupPaths_def lookup_dotless lookup_I toUpperCase_def upperUnit_def ustr_def)


section \<open>Stroke compiler\<close>

text \<open>
  Claim C8. For every text, anchor, font size and speed, every stroke that \<open>compile\<close>
  returns has as duration the estimated length of its path times the duration per
  character of the speed (0.15 slow, 0.10 medium, 0.06 fast) divided by 100, clamped
  between 0.1 and 0.5; so the duration lies in [0.1, 0.5].
\<close>

theorem stroke_duration_clamped:
  assumes "s \<in> set (compile str pos fs spd)"
  shows "sduration s = clamp (estimatePathLength (spath s) * durationPerChar spd / 100) 0.1 0.5
       \<and> 0.1 \<le> sduration s \<and> sduration s \<le> 0.5
       \<and> durationPerChar Slow = 0.15 \<and> durationPerChar Medium = 0.10 \<and> durationPerChar Fast = 0.06"
proof -
  obtain seg where seg: "seg \<in> set (textToPathSegments str pos (fs / 30))"
    and s: "s = \<lparr>spath = d seg, sduration = max 0.1 (min (seglength seg * durationPerChar spd / 100) 0.5), pressure = 1\<rparr>"
    using assms by (auto simp: compile_def Let_def strokeLoop_eq)
  have "seglength seg = estimatePathLength (d seg)"
    using seg unfolding textToPathSegments_def by (rule textLoop_lengths[rotated]) simp
  moreover have "spath s = d seg"
    and "sduration s = max 0.1 (min (seglength seg * durationPerChar spd / 100) 0.5)"
    by (simp_all add: s)
  ultimately have "sduration s = clamp (estimatePathLength (spath s) * durationPerChar spd / 100) 0.1 0.5"
    using clamp_max_min[of "0.1" "0.5" "estimatePathLength (d seg) * durationPerChar spd / 100"]
    by simp
  then show ?thesis using compile_durations[OF assms] by simp
qed

text \<open>The one stroke of the text \<open>#\<close> at font size 30 and medium speed.\<close>

theorem stroke_duration_clamped_witness:
  "\<lparr>spath = placeholderPath 0 0 1, sduration = 1 / 5, pressure = 1\<rparr> \<in> set (compile [35] \<lparr>px = 0, py = 0\<rparr> 30 Medium)
   \<and> (1 / 5 :: real) = clamp (200 * 0.1 / 100) 0.1 0.5
   \<and> (0.1 :: real) \<le> 1 / 5 \<and> (1 / 5 :: real) \<le> 0.5"
  using stroke_duration_clamped[of "\<lparr>spath = placeholderPath 0 0 1, sduration = 1 / 5, pressure = 1\<rparr>" "[35]" "\<lparr>px = 0, py = 0\<rparr>" 30 Medium]
  by (simp add: compile_hash placeholder_length)


section \<open>Scene compiler\<close>

text \<open>
  Claim C1. In every scene that \<open>convertSlidesToWhiteboardScenes\<close> returns, two actions at
  different places of the action list, neither of which is a camera move, occupy disjoint
  half-open intervals [startTime, startTime + duration).
\<close>

theorem compiled_actions_disjoint:
  assumes "sc \<in> set (convertSlidesToWhiteboardScenes slides)"
    and "i < length (actions sc)" and "j < length (actions sc)" and "i \<noteq> j"
    and "\<not> requiresCameraMove (actions sc ! i)" and "\<not> requiresCameraMove (actions sc ! j)"
  shows "interval (actions sc ! i) \<inter> interval (actions sc ! j) = {}"
proof -
  obtain slide n where sc: "sc = convertSlide slide n"
    using assms(1) scenes_are_converted[of sc slides "[]"] by (auto simp: convertSlidesToWhiteboardScenes_def)
  obtain hi where c: "chained 0 (actions sc) hi" using convertSlide_chained sc by blast
  show ?thesis
  proof (cases "i < j")
    case True then show ?thesis using chained_disjoint[OF c True assms(3)] by simp
  next
    case False
    then have "j < i" using assms(4) by simp
    then show ?thesis using chained_disjoint[OF c \<open>j < i\<close> assms(2)] by (simp add: Int_commute)
  qed
qed


text \<open>The write action and the first pause of the scene of \<open>hashSlide\<close>.\<close>

theorem compiled_actions_disjoint_witness:
  "convertSlide hashSlide 0 \<in> set (convertSlidesToWhiteboardScenes [hashSlide])
   \<and> (0::nat) < length (actions (convertSlide hashSlide 0))
   \<and> (1::nat) < length (actions (convertSlide hashSlide 0))
   \<and> (0::nat) \<noteq> 1
   \<and> \<not> requiresCameraMove (actions (convertSlide hashSlide 0) ! 0)
   \<and> \<not> requiresCameraMove (actions (convertSlide hashSlide 0) ! 1)
   \<and> interval (actions (convertSlide hashSlide 0) ! 0) = {0.3 ..< 0.5}
   \<and> interval (actions (convertSlide hashSlide 0) ! 1) = {0.6 ..< 1.1}
   \<and> interval (actions (convertSlide hashSlide 0) ! 0) \<inter> interval (actions (convertSlide hashSlide 0) ! 1) = {}"
proof -
  have m: "convertSlide hashSlide 0 \<in> set (convertSlidesToWhiteboardScenes [hashSlide])"
    by (simp add: convertSlidesToWhiteboardScenes_def)
  have l: "(0::nat) < length (actions (convertSlide hashSlide 0))"
    "(1::nat) < length (actions (convertSlide hashSlide 0))"
    by (simp_all add: hash_actions)
  have c: "\<not> requiresCameraMove (actions (convertSlide hashSlide 0) ! 0)"
    "\<not> requiresCameraMove (actions (convertSlide hashSlide 0) ! 1)"
    by (simp_all add: hash_actions hash_write requiresCameraMove_def)
  have i: "interval (actions (convertSlide hashSlide 0) ! 0) = {0.3 ..< 0.5}"
    "interval (actions (convertSlide hashSlide 0) ! 1) = {0.6 ..< 1.1}"
    by (simp_all add: hash_actions hash_write interval_def)
  have "interval (actions (convertSlide hashSlide 0) ! 0) \<inter> interval (actions (convertSlide hashSlide 0) ! 1) = {}"
    using compiled_actions_disjoint[OF m l(1) l(2) _ c] by simp
  then show ?thesis using m l c i by simp
qed

text \<open>
  Claim C5. For every write action of a compiled scene, the durations of the strokes
  stored in its metadata sum to the action's duration.
\<close>

theorem write_duration_is_stroke_sum:
  assumes "sc \<in> set (convertSlidesToWhiteboardScenes slides)"
    and "a \<in> set (actions sc)" and "atype a = Write"
  shows "\<exists>strks. strokes a = Some strks \<and> sum_list (map sduration strks) = duration a"
proof -
  obtain slide n where sc: "sc = convertSlide slide n"
    using assms(1) scenes_are_converted[of sc slides "[]"] by (auto simp: convertSlidesToWhiteboardScenes_def)
  from convertSlide_kinds[of a slide n] assms(2,3) sc
  obtain str pos fs t spd where a: "a = fst (createStrokeSequenceAction str pos fs t spd)" by auto
  obtain tm' where "createStrokeSequenceAction str pos fs t spd = (a, tm')"
    using a by (cases "createStrokeSequenceAction str pos fs t spd") simp
  from createStroke_timing(6,7)[OF this] show ?thesis by simp
qed


text \<open>The write action of the scene of \<open>hashSlide\<close>: one stroke of 0.2 seconds.\<close>

theorem write_duration_is_stroke_sum_witness:
  "convertSlide hashSlide 0 \<in> set (convertSlidesToWhiteboardScenes [hashSlide])
   \<and> hd (actions (convertSlide hashSlide 0)) \<in> set (actions (convertSlide hashSlide 0))
   \<and> atype (hd (actions (convertSlide hashSlide 0))) = Write
   \<and> strokes (hd (actions (convertSlide hashSlide 0))) =
        Some [\<lparr>spath = placeholderPath 960 540 (48 / 30), sduration = 1 / 5, pressure = 1\<rparr>]
   \<and> duration (hd (actions (convertSlide hashSlide 0))) = 1 / 5
   \<and> (\<exists>strks. strokes (hd (actions (convertSlide hashSlide 0))) = Some strks
         \<and> sum_list (map sduration strks) = duration (hd (actions (convertSlide hashSlide 0))))"
proof -
  have m: "convertSlide hashSlide 0 \<in> set (convertSlidesToWhiteboardScenes [hashSlide])"
    by (simp add: convertSlidesToWhiteboardScenes_def)
  have a: "hd (actions (convertSlide hashSlide 0)) \<in> set (actions (convertSlide hashSlide 0))"
    by (simp add: hash_actions)
  have w: "atype (hd (actions (convertSlide hashSlide 0))) = Write"
    by (simp add: hash_actions hash_write)
  have v: "strokes (hd (actions (convertSlide hashSlide 0))) =
        Some [\<lparr>spath = placeholderPath 960 540 (48 / 30), sduration = 1 / 5, pressure = 1\<rparr>]"
    "duration (hd (actions (convertSlide hashSlide 0))) = 1 / 5"
    by (simp_all add: hash_actions hash_write)
  show ?thesis using m a w v write_duration_is_stroke_sum[OF m a w] by blast
qed

text \<open>
  Claim C6, amended. Every action of a compiled scene has a start time of at least 0 and
  a duration of at least 0. Its duration is positive unless its stroke list is empty: a
  write action whose text yields no stroke has duration 0, the exact sum of its strokes.
  The clamp to a positive minimum is applied to the slot reserved on the timeline, not to
  the duration stored in the action: the action that follows starts no earlier than the
  action's start plus \<open>max 0.1 duration\<close> plus the gap 0.1.
\<close>

theorem action_timing_amended:
  assumes "sc \<in> set (convertSlidesToWhiteboardScenes slides)" and "a \<in> set (actions sc)"
  shows "0 \<le> startTime a \<and> 0 \<le> duration a
       \<and> (strokes a \<noteq> Some [] \<longrightarrow> 0 < duration a)
       \<and> (strokes a = Some [] \<longrightarrow> atype a = Write \<and> duration a = 0)
       \<and> (\<forall>i. Suc i < length (actions sc) \<longrightarrow> actions sc ! i = a \<longrightarrow>
             startTime a + max 0.1 (duration a) + 0.1 \<le> startTime (actions sc ! Suc i))"
proof -
  obtain slide n where sc: "sc = convertSlide slide n"
    using assms(1) scenes_are_converted[of sc slides "[]"] by (auto simp: convertSlidesToWhiteboardScenes_def)
  obtain hi where c: "chained 0 (actions sc) hi" using convertSlide_chained sc by blast
  obtain hi' where s: "slotted 0 (actions sc) hi'" using convertSlide_slotted sc by blast
  have st: "0 \<le> startTime a" using chained_starts[OF c assms(2)] .
  have nx: "\<forall>i. Suc i < length (actions sc) \<longrightarrow> actions sc ! i = a \<longrightarrow>
             startTime a + max 0.1 (duration a) + 0.1 \<le> startTime (actions sc ! Suc i)"
    using slotted_next[OF s] by auto
  from convertSlide_kinds[of a slide n] assms(2) sc
  consider (w) str pos fs t spd where "a = fst (createStrokeSequenceAction str pos fs t spd)"
    | (o) "strokes a = None" "0 < duration a" by auto
  then show ?thesis
  proof cases
    case w
    obtain tm' where cs: "createStrokeSequenceAction str pos fs t spd = (a, tm')"
      using w by (cases "createStrokeSequenceAction str pos fs t spd") simp
    note ct = createStroke_timing[OF cs]
    have "compile str pos fs spd \<noteq> [] \<Longrightarrow> 0 < duration a"
      unfolding ct(7) by (rule sum_list_pos_strokes) (rule compile_positive)
    moreover have "compile str pos fs spd = [] \<Longrightarrow> duration a = 0"
      unfolding ct(7) by simp
    ultimately show ?thesis using st nx ct(2,4,6) by auto
  next
    case o then show ?thesis using st nx by simp
  qed
qed

text \<open>
  The write action of the scene of \<open>hashSlide\<close>, with one stroke of 0.2 seconds, and the
  write action of the scene of \<open>blankSlide\<close>, without strokes: its slot is 0.2 seconds
  long although its duration is 0.
\<close>

theorem action_timing_amended_witness:
  "convertSlide hashSlide 0 \<in> set (convertSlidesToWhiteboardScenes [hashSlide])
   \<and> hd (actions (convertSlide hashSlide 0)) \<in> set (actions (convertSlide hashSlide 0))
   \<and> strokes (hd (actions (convertSlide hashSlide 0))) \<noteq> Some []
   \<and> Suc 0 < length (actions (convertSlide hashSlide 0))
   \<and> actions (convertSlide hashSlide 0) ! 0 = hd (actions (convertSlide hashSlide 0))
   \<and> startTime (hd (actions (convertSlide hashSlide 0))) = 0.3
   \<and> 0 < duration (hd (actions (convertSlide hashSlide 0)))
   \<and> startTime (hd (actions (convertSlide hashSlide 0))) + max 0.1 (duration (hd (actions (convertSlide hashSlide 0)))) + 0.1
        \<le> startTime (actions (convertSlide hashSlide 0) ! Suc 0)
   \<and> convertSlide blankSlide 0 \<in> set (convertSlidesToWhiteboardScenes [blankSlide])
   \<and> hd (actions (convertSlide blankSlide 0)) \<in> set (actions (convertSlide blankSlide 0))
   \<and> strokes (hd (actions (convertSlide blankSlide 0))) = Some []
   \<and> Suc 0 < length (actions (convertSlide blankSlide 0))
   \<and> actions (convertSlide blankSlide 0) ! 0 = hd (actions (convertSlide blankSlide 0))
   \<and> atype (hd (actions (convertSlide blankSlide 0))) = Write
   \<and> duration (hd (actions (convertSlide blankSlide 0))) = 0
   \<and> startTime (hd (actions (convertSlide blankSlide 0))) + max 0.1 (duration (hd (actions (convertSlide blankSlide 0)))) + 0.1
        \<le> startTime (actions (convertSlide blankSlide 0) ! Suc 0)"
proof -
  have m: "convertSlide hashSlide 0 \<in> set (convertSlidesToWhiteboardScenes [hashSlide])"
    by (simp add: convertSlidesToWhiteboardScenes_def)
  have a: "hd (actions (convertSlide hashSlide 0)) \<in> set (actions (convertSlide hashSlide 0))"
    by (simp add: hash_actions)
  have s: "strokes (hd (actions (convertSlide hashSlide 0))) \<noteq> Some []"
    "Suc 0 < length (actions (convertSlide hashSlide 0))"
    "actions (convertSlide hashSlide 0) ! 0 = hd (actions (convertSlide hashSlide 0))"
    "startTime (hd (actions (convertSlide hashSlide 0))) = 0.3"
    by (simp_all add: hash_actions hash_write)
  have m': "convertSlide blankSlide 0 \<in> set (convertSlidesToWhiteboardScenes [blankSlide])"
    by (simp add: convertSlidesToWhiteboardScenes_def)
  have a': "hd (actions (convertSlide blankSlide 0)) \<in> set (actions (convertSlide blankSlide 0))"
    by (simp add: blank_actions)
  have s': "strokes (hd (actions (convertSlide blankSlide 0))) = Some []"
    "Suc 0 < length (actions (convertSlide blankSlide 0))"
    "actions (convertSlide blankSlide 0) ! 0 = hd (actions (convertSlide blankSlide 0))"
    by (simp_all add: blank_actions)
  show ?thesis
    using m a s m' a' s' action_timing_amended[OF m a] action_timing_amended[OF m' a'] by blast
qed

text \<open>
  As first stated, with a positive duration for every action, the property fails: the
  slide whose text is one space compiles to a write action without strokes, and its
  duration is 0 while its slot on the timeline is 0.2 seconds long.
\<close>

theorem blank_text_zero_duration:
  "convertSlide blankSlide 0 \<in> set (convertSlidesToWhiteboardScenes [blankSlide])
   \<and> hd (actions (convertSlide blankSlide 0)) \<in> set (actions (convertSlide blankSlide 0))
   \<and> atype (hd (actions (convertSlide blankSlide 0))) = Write
   \<and> strokes (hd (actions (convertSlide blankSlide 0))) = Some []
   \<and> startTime (hd (actions (convertSlide blankSlide 0))) = 0.3
   \<and> duration (hd (actions (convertSlide blankSlide 0))) = 0
   \<and> \<not> 0 < duration (hd (actions (convertSlide blankSlide 0)))
   \<and> startTime (actions (convertSlide blankSlide 0) ! 1) = 0.5"
  by (simp add: convertSlidesToWhiteboardScenes_def blank_actions)

text \<open>
  Claim C9. When the list of semantic actions of a slide is empty, the scene has exactly
  one action, the placeholder write action for the text \<open>Loading...\<close>, and its total
  duration is greater than 0.
\<close>

theorem empty_intents_placeholder:
  assumes "slideIntents slide n = []"
  shows "actions (convertSlide slide n) =
           [fst (createStrokeSequenceAction (ustr ''Loading...'') \<lparr>px = 960, py = 540\<rparr> 48 reset Medium)]
       \<and> length (actions (convertSlide slide n)) = 1
       \<and> atype (hd (actions (convertSlide slide n))) = Write
       \<and> atext (hd (actions (convertSlide slide n))) = Some (ustr ''Loading...'')
       \<and> jsless (Num 0) (totalDuration (convertSlide slide n))"
proof -
  have a: "actions (convertSlide slide n) =
           [fst (createStrokeSequenceAction (ustr ''Loading...'') \<lparr>px = 960, py = 540\<rparr> 48 reset Medium)]"
    using assms by (simp add: convertSlide_actions)
  have "atype (fst (createStrokeSequenceAction str pos fs tm spd)) = Write
      \<and> atext (fst (createStrokeSequenceAction str pos fs tm spd)) = Some str" for str pos fs tm spd
    by (simp add: createStrokeSequenceAction_def Let_def blankAction_def split: prod.splits)
  then show ?thesis using a total_positive by simp
qed

text \<open>The slide whose only item has an unknown type, with a \<open>NaN\<close> duration.\<close>

theorem empty_intents_placeholder_witness:
  "slideIntents unknownSlide 0 = []
   \<and> length (actions (convertSlide unknownSlide 0)) = 1
   \<and> atype (hd (actions (convertSlide unknownSlide 0))) = Write
   \<and> jsless (Num 0) (totalDuration (convertSlide unknownSlide 0))"
proof -
  have h: "slideIntents unknownSlide 0 = []"
    by (simp add: slideIntents_def unknownSlide_def contentItemToSemantic_def)
  show ?thesis using h empty_intents_placeholder[OF h] by blast
qed


section \<open>Action state evaluator\<close>

text \<open>
  Claim C2. For an action of positive duration and an elapsed time \<open>e\<close> since the scene
  started, the progress is 0 before the action starts, 1 and complete from start +
  duration on, and (e - start) / duration in between; it always lies in [0, 1], and a
  complete action has progress 1.
\<close>

theorem progress_cases:
  assumes "0 < duration a"
  shows "currentProgress (getActionState calc a (s0 + e) s0) =
           (if e < startTime a then 0
            else if startTime a + duration a \<le> e then 1
            else (e - startTime a) / duration a)
       \<and> isComplete (getActionState calc a (s0 + e) s0) = (startTime a + duration a \<le> e)
       \<and> 0 \<le> currentProgress (getActionState calc a (s0 + e) s0)
       \<and> currentProgress (getActionState calc a (s0 + e) s0) \<le> 1
       \<and> (isComplete (getActionState calc a (s0 + e) s0) \<longrightarrow>
            currentProgress (getActionState calc a (s0 + e) s0) = 1)"
  using assms by (auto simp: getActionState_def Let_def divide_simps)

text \<open>The action that starts at 1 and lasts 2, before, during and after.\<close>

theorem progress_cases_witness:
  "0 < duration pauseExample
   \<and> currentProgress (getActionState noSampler pauseExample 0 0) = 0
   \<and> currentProgress (getActionState noSampler pauseExample 2 0) = 1 / 2
   \<and> isComplete (getActionState noSampler pauseExample 5 0)
   \<and> currentProgress (getActionState noSampler pauseExample 5 0) = 1"
  using progress_cases[of pauseExample noSampler 0 0] progress_cases[of pauseExample noSampler 0 2]
    progress_cases[of pauseExample noSampler 0 5]
  by (simp add: pauseExample_def)

text \<open>
  Claim C3. For an action of positive duration, the progress at a time is at most the
  progress at any later time.
\<close>

theorem progress_monotone:
  assumes "0 < duration a" and "t1 \<le> t2"
  shows "currentProgress (getActionState calc a t1 s0) \<le> currentProgress (getActionState calc a t2 s0)"
  using assms by (auto simp: progress_value divide_simps)


text \<open>The action that starts at 1 and lasts 2, at times 2 and 2.5.\<close>

theorem progress_monotone_witness:
  "0 < duration pauseExample \<and> (2::real) \<le> 5 / 2
   \<and> currentProgress (getActionState noSampler pauseExample 2 0) = 1 / 2
   \<and> currentProgress (getActionState noSampler pauseExample (5 / 2) 0) = 3 / 4
   \<and> currentProgress (getActionState noSampler pauseExample 2 0)
        \<le> currentProgress (getActionState noSampler pauseExample (5 / 2) 0)"
proof -
  have d: "0 < duration pauseExample" by (simp add: pauseExample_def)
  have le: "(2::real) \<le> 5 / 2" by simp
  have v: "currentProgress (getActionState noSampler pauseExample 2 0) = 1 / 2"
    "currentProgress (getActionState noSampler pauseExample (5 / 2) 0) = 3 / 4"
    by (simp_all add: progress_value pauseExample_def)
  show ?thesis using d le v progress_monotone[OF d le, of noSampler 0] by blast
qed

text \<open>
  Claim C10. For an arrow action with a start and an end, a positive duration, its hand
  not hidden and no sampled path points, evaluated at a time within the action: the hand
  is at start + progress * (end - start), the linear interpolation along the straight
  segment, and the hand angle is the angle of the segment, \<open>atan2\<close> of the end minus the
  start. In particular an arrow from (0, 0) to (100, 0) halfway through its duration has
  progress 1/2, its hand at (50, 0) and the hand angle 0.
\<close>

theorem arrow_interpolation:
  assumes "atype a = Arrow" and "start a = Some st" and "aend a = Some en"
    and "0 < duration a" and "handVisible a \<noteq> Some False"
    and "pathPoints (getActionState calc a t s0) = []"
    and "s0 + startTime a \<le> t" and "t \<le> s0 + startTime a + duration a"
  shows "currentProgress (getActionState calc a t s0) = (t - (s0 + startTime a)) / duration a
       \<and> handPosition (getActionState calc a t s0) =
            Some \<lparr>hx = Num (px st + currentProgress (getActionState calc a t s0) * (px en - px st)),
                  hy = Num (py st + currentProgress (getActionState calc a t s0) * (py en - py st))\<rparr>
       \<and> handAngle (getActionState calc a t s0) = Some (atan2 (py en - py st) (px en - px st))
       \<and> (st = \<lparr>px = 0, py = 0\<rparr> \<and> en = \<lparr>px = 100, py = 0\<rparr> \<and> t = s0 + startTime a + duration a / 2 \<longrightarrow>
            currentProgress (getActionState calc a t s0) = 1 / 2
            \<and> handPosition (getActionState calc a t s0) = Some \<lparr>hx = Num 50, hy = Num 0\<rparr>
            \<and> handAngle (getActionState calc a t s0) = Some 0)"
proof -
  let ?p = "(t - (s0 + startTime a)) / duration a"
  have pts: "(if truthyPath (path a) then calc (the (path a)) (duration a) else []) = []"
    using assms(6) by (simp add: pathPoints_value)
  have hp: "handOnPath calc a p = None" for p
    using pts by (simp add: handOnPath_def Let_def split: if_splits)
  have p0: "0 \<le> ?p" using assms(4,7) by simp
  have p1: "?p \<le> 1" using assms(4,8) by (simp add: divide_simps)
  have prog: "min 1 (max 0 ?p) = ?p" using p0 p1 by simp
  have cp: "currentProgress (getActionState calc a t s0) = ?p"
    using assms(4,7,8) by (auto simp: progress_value)
  have hand: "getHandPosition calc a t s0 = Some (finiteHand (handOnArrow st en ?p))"
    using assms(1-4,7,8) unfolding getHandPosition_def Let_def prog
    by (simp add: hp)
  have pos: "handPosition (getActionState calc a t s0) =
            Some \<lparr>hx = Num (px st + ?p * (px en - px st)), hy = Num (py st + ?p * (py en - py st))\<rparr>"
    and ang: "handAngle (getActionState calc a t s0) = Some (atan2 (py en - py st) (px en - px st))"
    using hand assms(5) by (simp_all add: hand_value finiteHand_def handOnArrow_linear)
  have mid: "st = \<lparr>px = 0, py = 0\<rparr> \<and> en = \<lparr>px = 100, py = 0\<rparr> \<and> t = s0 + startTime a + duration a / 2 \<Longrightarrow>
            ?p = 1 / 2 \<and> px st + ?p * (px en - px st) = 50 \<and> py st + ?p * (py en - py st) = 0
            \<and> atan2 (py en - py st) (px en - px st) = 0"
    using assms(4) by (simp add: atan2_zero)
  show ?thesis
    unfolding cp using pos ang mid by auto
qed

text \<open>The arrow from (0, 0) to (100, 0) that starts at 1 and lasts 2, at time 2.\<close>

theorem arrow_interpolation_witness:
  "atype arrowExample = Arrow
   \<and> start arrowExample = Some \<lparr>px = 0, py = 0\<rparr>
   \<and> aend arrowExample = Some \<lparr>px = 100, py = 0\<rparr>
   \<and> 0 < duration arrowExample
   \<and> handVisible arrowExample \<noteq> Some False
   \<and> pathPoints (getActionState noSampler arrowExample 2 0) = []
   \<and> 0 + startTime arrowExample \<le> 2 \<and> 2 \<le> 0 + startTime arrowExample + duration arrowExample
   \<and> (2::real) = 0 + startTime arrowExample + duration arrowExample / 2
   \<and> currentProgress (getActionState noSampler arrowExample 2 0) = 1 / 2
   \<and> handPosition (getActionState noSampler arrowExample 2 0) = Some \<lparr>hx = Num 50, hy = Num 0\<rparr>
   \<and> handAngle (getActionState noSampler arrowExample 2 0) = Some 0"
proof -
  have h: "atype arrowExample = Arrow" "start arrowExample = Some \<lparr>px = 0, py = 0\<rparr>"
    "aend arrowExample = Some \<lparr>px = 100, py = 0\<rparr>" "0 < duration arrowExample"
    "handVisible arrowExample \<noteq> Some False"
    by (simp_all add: arrowExample_def blankAction_def)
  have p: "pathPoints (getActionState noSampler arrowExample 2 0) = []"
    by (simp add: pathPoints_value noSampler_def)
  have b: "0 + startTime arrowExample \<le> 2" "2 \<le> 0 + startTime arrowExample + duration arrowExample"
    and t: "(2::real) = 0 + startTime arrowExample + duration arrowExample / 2"
    by (simp_all add: arrowExample_def)
  show ?thesis using h p b t arrow_interpolation[OF h p b] by blast
qed

end
